theory Spec2Isabelle
  imports Complex_Main "HOL-Library.Sublist"
begin

section \<open>JavaScript strings and the regular expressions the code tests\<close>

text \<open>
  A JavaScript string is modelled by its UTF-8 bytes. Every pattern the code searches for is
  ASCII, and an ASCII pattern occurs in a string exactly where its bytes occur in the UTF-8
  encoding, so \<open>String.prototype.includes\<close> and an unanchored \<open>RegExp.test\<close> of a
  literal are a search for a contiguous sublist.
\<close>

fun str_includes :: "string \<Rightarrow> string \<Rightarrow> bool" where
  "str_includes [] p = (p = [])"
| "str_includes (c # cs) p = (prefix p (c # cs) \<or> str_includes cs p)"

definition is_digit :: "char \<Rightarrow> bool" where
  "is_digit c = (c \<in> set ''0123456789'')"

text \<open>The regular expression \<^verbatim>\<open>HTTP Fehler 4\d\d\<close>, unanchored.\<close>

fun http_fehler_4xx :: "string \<Rightarrow> bool" where
  "http_fehler_4xx [] = False"
| "http_fehler_4xx (c # cs) =
     ((prefix ''HTTP Fehler 4'' (c # cs) \<and>
        (case drop 13 (c # cs) of
           d1 # d2 # _ \<Rightarrow> is_digit d1 \<and> is_digit d2
         | _ \<Rightarrow> False))
      \<or> http_fehler_4xx cs)"

text \<open>
  \<open>String.prototype.toLowerCase\<close>, on the ASCII letters. The other characters are left
  as they are: the code only searches the result for lower-case ASCII words, and no other
  character has a lower case that could complete one of them.
\<close>

definition lower_char :: "char \<Rightarrow> char" where
  "lower_char c =
     (if c \<in> set ''ABCDEFGHIJKLMNOPQRSTUVWXYZ'' then char_of (of_char c + (32::nat)) else c)"

definition toLowerCase :: "string \<Rightarrow> string" where
  "toLowerCase s = map lower_char s"

text \<open>
  \<open>String.prototype.trim\<close>: the white space and line terminators of ECMAScript are
  removed at both ends. They are, in UTF-8: U+0009 to U+000D, U+0020, U+00A0, U+1680,
  U+2000 to U+200A, U+2028, U+2029, U+202F, U+205F, U+3000 and U+FEFF.
\<close>

definition js_whitespace :: "string list" where
  "js_whitespace =
     [[CHR 0x09], [CHR 0x0A], [CHR 0x0B], [CHR 0x0C], [CHR 0x0D], [CHR 0x20],
      [CHR 0xC2, CHR 0xA0], [CHR 0xE1, CHR 0x9A, CHR 0x80],
      [CHR 0xE2, CHR 0x80, CHR 0x80], [CHR 0xE2, CHR 0x80, CHR 0x81],
      [CHR 0xE2, CHR 0x80, CHR 0x82], [CHR 0xE2, CHR 0x80, CHR 0x83],
      [CHR 0xE2, CHR 0x80, CHR 0x84], [CHR 0xE2, CHR 0x80, CHR 0x85],
      [CHR 0xE2, CHR 0x80, CHR 0x86], [CHR 0xE2, CHR 0x80, CHR 0x87],
      [CHR 0xE2, CHR 0x80, CHR 0x88], [CHR 0xE2, CHR 0x80, CHR 0x89],
      [CHR 0xE2, CHR 0x80, CHR 0x8A], [CHR 0xE2, CHR 0x80, CHR 0xA8],
      [CHR 0xE2, CHR 0x80, CHR 0xA9], [CHR 0xE2, CHR 0x80, CHR 0xAF],
      [CHR 0xE2, CHR 0x81, CHR 0x9F], [CHR 0xE3, CHR 0x80, CHR 0x80],
      [CHR 0xEF, CHR 0xBB, CHR 0xBF]]"

text \<open>The string without the sequences of \<open>ws\<close> it starts with.\<close>

function drop_ws :: "string list \<Rightarrow> string \<Rightarrow> string" where
  "drop_ws ws s =
     (case find (\<lambda>w. w \<noteq> [] \<and> prefix w s) ws of
        None \<Rightarrow> s
      | Some w \<Rightarrow> drop_ws ws (drop (length w) s))"
  by pat_completeness auto
termination
  by (relation "measure (\<lambda>(ws, s). length s)") (auto simp: find_Some_iff prefix_def)

declare drop_ws.simps [simp del]

definition trim :: "string \<Rightarrow> string" where
  "trim s = rev (drop_ws (map rev js_whitespace) (rev (drop_ws js_whitespace s)))"

section \<open>Errors, outcomes and the network\<close>

text \<open>
  An \<open>Error\<close> object: its \<open>name\<close> and its \<open>message\<close>. \<open>new Error(m)\<close> is
  \<open>JsError ''Error'' m\<close>.
\<close>

datatype js_error = JsError (err_name: string) (message: string)

abbreviation Error :: "string \<Rightarrow> js_error" where
  "Error m \<equiv> JsError ''Error'' m"

abbreviation TypeError :: "string \<Rightarrow> js_error" where
  "TypeError m \<equiv> JsError ''TypeError'' m"

text \<open>
  What a \<^verbatim>\<open>catch\<close> clause receives. JavaScript throws, and a promise rejects with, any
  value: an \<open>Error\<close> object, or \<open>null\<close> or \<open>undefined\<close> (as after \<^verbatim>\<open>reject()\<close>). The
  other values that are not objects are left out.
\<close>

datatype thrown = Thrown js_error | ThrownNull | ThrownUndefined

text \<open>
  \<^verbatim>\<open>(err && err.message) ? err.message : ''\<close>, the message that the \<^verbatim>\<open>catch\<close> of
  the retry loops takes from what it caught.
\<close>

definition caught_message :: "thrown \<Rightarrow> string" where
  "caught_message err =
     (case err of Thrown e \<Rightarrow> message e | ThrownNull \<Rightarrow> [] | ThrownUndefined \<Rightarrow> [])"

text \<open>
  \<^verbatim>\<open>error.message\<close>, read without a test of \<open>error\<close>: reading a property of \<open>null\<close>
  or \<open>undefined\<close> throws a \<open>TypeError\<close>.
\<close>

definition read_message :: "thrown \<Rightarrow> js_error + string" where
  "read_message error =
     (case error of
        Thrown e \<Rightarrow> Inr (message e)
      | ThrownNull \<Rightarrow> Inl (TypeError ''Cannot read properties of null'')
      | ThrownUndefined \<Rightarrow> Inl (TypeError ''Cannot read properties of undefined''))"

text \<open>\<open>String(error)\<close>; for an \<open>Error\<close> object that is \<open>Error.prototype.toString\<close>.\<close>

definition String_of_error :: "js_error \<Rightarrow> string" where
  "String_of_error e =
     (if message e = [] then err_name e
      else if err_name e = [] then message e
      else err_name e @ '': '' @ message e)"

definition String_of_thrown :: "thrown \<Rightarrow> string" where
  "String_of_thrown error =
     (case error of
        Thrown e \<Rightarrow> String_of_error e
      | ThrownNull \<Rightarrow> ''null''
      | ThrownUndefined \<Rightarrow> ''undefined'')"

text \<open>
  The result of an \<open>async\<close> method: the promise resolves to a value or rejects with what
  escaped the method body.
\<close>

datatype 'a promise = Resolved 'a | Rejected thrown

text \<open>
  What the provider clients resolve to: the object with the data and the \<open>source\<close>, or the
  object \<^verbatim>\<open>{ error, source }\<close>.
\<close>

datatype 'a outcome = Data 'a string | ErrorResult string string

fun source :: "'a outcome \<Rightarrow> string" where
  "source (Data _ s) = s"
| "source (ErrorResult _ s) = s"

text \<open>
  \<open>validateCoordinates\<close> and the validators of the clients return \<^verbatim>\<open>{ valid, error }\<close>:
  \<open>None\<close> is \<^verbatim>\<open>{ valid: true, error: null }\<close> and \<open>Some e\<close> is
  \<^verbatim>\<open>{ valid: false, error: e }\<close>.
\<close>

type_synonym validation = "string option"

text \<open>
  One network attempt, \<^verbatim>\<open>await safeApiFetch(...)\<close> followed by
  \<^verbatim>\<open>await response.json()\<close>: either of them throws (the promise rejects), or the body
  parses to a JSON value. \<open>Json None\<close> is a body whose value is \<open>null\<close>. \<open>safeApiFetch\<close>
  is not part of the sources at hand; the network is a parameter that gives the result of
  each attempt.
\<close>

datatype 'p attempt = Threw thrown | Json "'p option"

text \<open>
  What a call does besides returning: the requests it sends (with what the request is built
  from) and the times it waits, in milliseconds.
\<close>

datatype 'q event = Fetch 'q | Wait nat

section \<open>The retry loop of \<open>fetchWeather\<close> and \<open>fetchHistorical\<close>\<close>

definition maxAttempts :: nat where
  "maxAttempts = 3"

text \<open>
  The body of the inner \<^verbatim>\<open>try\<close>: fetch, parse, validate. The second component is
  the value of the variable \<open>data\<close> afterwards.
\<close>

definition try_attempt ::
  "('p option \<Rightarrow> validation) \<Rightarrow> 'p attempt \<Rightarrow> 'p option \<Rightarrow> (thrown + unit) \<times> 'p option" where
  "try_attempt validateResponse r data =
     (case r of
        Threw e \<Rightarrow> (Inl e, data)
      | Json d \<Rightarrow>
          (case validateResponse d of
             Some m \<Rightarrow> (Inl (Thrown (Error m)), d)
           | None \<Rightarrow> (Inr (), d)))"

text \<open>
  \<^verbatim>\<open>while (attempt < maxAttempts) { try { ...; break; } catch (err) { ... } }\<close>.
  The two clients differ in the pattern \<open>isClientError\<close> and in \<open>_validateResponse\<close>.
  The loop returns the error it rethrows, or the value of \<open>data\<close> when it ends; the
  events are appended to \<open>tr\<close>. The attempt \<open>i\<close> (from 0) gets what the network gives
  to the \<open>i\<close>-th request.
\<close>

function retry_loop ::
  "(string \<Rightarrow> bool) \<Rightarrow> ('p option \<Rightarrow> validation) \<Rightarrow> (nat \<Rightarrow> 'p attempt) \<Rightarrow> 'q \<Rightarrow>
   nat \<Rightarrow> 'p option \<Rightarrow> 'q event list \<Rightarrow> (thrown + 'p option) \<times> 'q event list" where
  "retry_loop isClientError validateResponse net req attempt data tr =
     (if attempt < maxAttempts then
        (case try_attempt validateResponse (net attempt) data of
           (Inr _, data') \<Rightarrow> (Inr data', tr @ [Fetch req])
         | (Inl err, data') \<Rightarrow>
             (let attempt' = attempt + 1;
                  isLast = (attempt' \<ge> maxAttempts);
                  msg = caught_message err
              in if isClientError msg \<or> isLast then (Inl err, tr @ [Fetch req])
                 else retry_loop isClientError validateResponse net req attempt' data'
                        (tr @ [Fetch req, Wait (200 * 2 ^ (attempt' - 1))])))
      else (Inr data, tr))"
  by pat_completeness auto
termination
  by (relation "measure (\<lambda>(_, _, _, _, attempt, _, _). maxAttempts - attempt)")
     (auto simp: maxAttempts_def)

declare retry_loop.simps [simp del]

section \<open>Visual Crossing: \<open>src/api/visualcrossing.js\<close>\<close>

text \<open>The pattern of \<open>fetchWeather\<close> for the errors it does not retry.\<close>

definition vc_isClientError :: "string \<Rightarrow> bool" where
  "vc_isClientError msg =
     (http_fehler_4xx msg \<or> str_includes msg ''401'' \<or> str_includes msg ''403'' \<or>
      str_includes msg ''404'' \<or> str_includes msg ''429'' \<or> str_includes msg ''API key'' \<or>
      str_includes msg ''Invalid API'' \<or> str_includes msg ''unauthorized'')"

text \<open>
  The payload. A field that is absent, \<open>null\<close> or falsy where the code only tests it is
  \<open>None\<close>; \<open>days\<close> is \<open>None\<close> when it is not an array. The numbers of JavaScript are
  taken as real numbers.
\<close>

record vc_conditions =
  cc_temp :: real
  cc_humidity :: real
  cc_windspeed :: real
  cc_pressure :: "real option"
  cc_cloudcover :: "real option"
  cc_conditions :: "string option"
  cc_datetimeEpoch :: int

record vc_day =
  d_datetime :: string
  d_tempmin :: real
  d_tempmax :: real
  d_temp :: real
  d_precip :: "real option"
  d_windspeed :: real
  d_conditions :: "string option"

record vc_payload =
  errorCode :: "string option"
  vc_message :: "string option"
  resolvedUnit :: "string option"
  currentConditions :: "vc_conditions option"
  days :: "vc_day list option"

text \<open>A string is truthy when it is there and not empty.\<close>

fun truthy :: "string option \<Rightarrow> bool" where
  "truthy None = False"
| "truthy (Some s) = (s \<noteq> [])"

definition vc_validateResponse :: "vc_payload option \<Rightarrow> validation" where
  "vc_validateResponse data =
     (case data of
        None \<Rightarrow> Some ''Keine Daten von Visual Crossing erhalten''
      | Some d \<Rightarrow>
          if truthy (errorCode d) then
            (let errorMsg = (if truthy (vc_message d) then the (vc_message d)
                             else ''Error code: '' @ the (errorCode d))
             in Some (''Visual Crossing: '' @ errorMsg))
          else if currentConditions d = None then
            Some (''Ung'' @ [CHR 0xC3, CHR 0xBC] @
                  ''ltige Visual Crossing Antwort: Keine aktuellen Bedingungen'')
          else if days d = None then
            Some (''Ung'' @ [CHR 0xC3, CHR 0xBC] @
                  ''ltige Visual Crossing Antwort: Keine Tagesdaten'')
          else None)"

definition mapWeatherCondition :: "string option \<Rightarrow> nat" where
  "mapWeatherCondition conditions =
     (if \<not> truthy conditions then 3
      else let cond = toLowerCase (the conditions) in
        if str_includes cond ''clear'' \<or> str_includes cond ''sunny'' then 0
        else if str_includes cond ''partly cloudy'' \<or> str_includes cond ''mostly clear'' then 2
        else if str_includes cond ''cloudy'' \<or> str_includes cond ''overcast'' then 3
        else if str_includes cond ''drizzle'' \<or> str_includes cond ''light rain'' then 51
        else if str_includes cond ''rain'' then 63
        else if str_includes cond ''heavy rain'' \<or> str_includes cond ''intense rain'' then 65
        else if str_includes cond ''snow'' then 71
        else if str_includes cond ''thunderstorm'' \<or> str_includes cond ''severe'' \<or>
                str_includes cond ''tornado'' then 95
        else if str_includes cond ''fog'' \<or> str_includes cond ''mist'' then 45
        else if str_includes cond ''wind'' then 3
        else 3)"

record vc_current =
  temp :: real
  humidity :: real
  cur_wind_speed :: real
  cur_pressure :: "real option"
  clouds :: real
  cur_weather_code :: nat
  cur_description :: string
  timestamp :: int

record vc_daily =
  date :: string
  temp_min :: real
  temp_max :: real
  temp_avg :: real
  precipitation :: real
  wind_speed :: real
  weather_code :: nat
  description :: string

record vc_formatted =
  current :: vc_current
  historical :: "vc_daily list"
  forecast :: "vc_daily list"

text \<open>The object that both \<open>map\<close> callbacks of \<open>_formatWeatherData\<close> build from a day.\<close>

definition vc_format_day :: "vc_day \<Rightarrow> vc_daily" where
  "vc_format_day day =
     \<lparr> date = d_datetime day,
       temp_min = d_tempmin day,
       temp_max = d_tempmax day,
       temp_avg = d_temp day,
       precipitation = (case d_precip day of None \<Rightarrow> 0 | Some p \<Rightarrow> p),
       wind_speed = d_windspeed day,
       weather_code = mapWeatherCondition (d_conditions day),
       description = (if truthy (d_conditions day) then the (d_conditions day)
                      else ''Unbekannt'') \<rparr>"

text \<open>
  \<open>_formatWeatherData\<close>. \<open>Date_parse\<close> is \<^verbatim>\<open>new Date(s).getTime()\<close> of the engine
  (\<open>None\<close> is \<open>NaN\<close>) and \<open>today\<close> is \<^verbatim>\<open>new Date()\<close>, both in milliseconds. The
  variable \<open>unitGroup\<close> is read from \<open>resolvedUnit\<close> and not used. Reading a property
  of \<open>null\<close> or \<open>undefined\<close> throws a \<open>TypeError\<close>.
\<close>

definition formatWeatherData ::
  "(string \<Rightarrow> int option) \<Rightarrow> int \<Rightarrow> vc_payload option \<Rightarrow> js_error + vc_formatted" where
  "formatWeatherData Date_parse today data =
     (case data of
        None \<Rightarrow> Inl (TypeError ''Cannot read properties of null'')
      | Some d \<Rightarrow>
          (case currentConditions d of
             None \<Rightarrow> Inl (TypeError ''Cannot read properties of undefined'')
           | Some cc \<Rightarrow>
               (case days d of
                  None \<Rightarrow> Inl (TypeError ''Cannot read properties of undefined'')
                | Some ds \<Rightarrow>
                    Inr \<lparr> current =
                            \<lparr> temp = cc_temp cc,
                              humidity = cc_humidity cc,
                              cur_wind_speed = cc_windspeed cc,
                              cur_pressure = cc_pressure cc,
                              clouds = (case cc_cloudcover cc of None \<Rightarrow> 0 | Some c \<Rightarrow> c),
                              cur_weather_code = mapWeatherCondition (cc_conditions cc),
                              cur_description =
                                (if truthy (cc_conditions cc) then the (cc_conditions cc)
                                 else ''Unbekannt''),
                              timestamp = cc_datetimeEpoch cc * 1000 \<rparr>,
                          historical =
                            map vc_format_day
                              (rev (filter
                                 (\<lambda>day. case Date_parse (d_datetime day) of
                                    None \<Rightarrow> False
                                  | Some dayDate \<Rightarrow>
                                      (let dayCount = (today - dayDate) div (1000 * 60 * 60 * 24)
                                       in dayCount \<ge> 0 \<and> dayCount \<le> 6))
                                 ds)),
                          forecast = map vc_format_day (take 7 (drop 1 ds)) \<rparr>)))"

text \<open>What the request URL of \<open>fetchWeather\<close> is built from.\<close>

record vc_request =
  rq_latitude :: real
  rq_longitude :: real
  rq_unitGroup :: string
  rq_key :: string

text \<open>
  \<open>fetchWeather\<close>. \<open>validateCoordinates\<close> is not part of the sources at hand and is a
  parameter. \<open>apiKey\<close> is \<open>None\<close> when it is not a string. The result is the promise and
  the events of the call; the fields \<open>duration\<close> and \<open>fromCache\<close> of the result are
  left out. \<open>fetchWeather_try\<close> is the body of the outer \<^verbatim>\<open>try\<close> after the test of the
  key. The \<^verbatim>\<open>catch\<close> reads \<^verbatim>\<open>error.message\<close>; when that throws, nothing catches it
  and the promise of the method rejects.
\<close>

definition fetchWeather_try ::
  "(real \<Rightarrow> real \<Rightarrow> validation) \<Rightarrow> (string \<Rightarrow> int option) \<Rightarrow> int \<Rightarrow> (nat \<Rightarrow> vc_payload attempt) \<Rightarrow>
   real \<Rightarrow> real \<Rightarrow> string \<Rightarrow> string \<Rightarrow> (thrown + vc_formatted outcome) \<times> vc_request event list" where
  "fetchWeather_try validateCoordinates Date_parse today net latitude longitude apiKey units =
     (case validateCoordinates latitude longitude of
        Some e \<Rightarrow> (Inl (Thrown (Error e)), [])
      | None \<Rightarrow>
          (let units' = (if units \<in> set [''metric'', ''us''] then units else ''metric'');
               req = \<lparr> rq_latitude = latitude, rq_longitude = longitude,
                       rq_unitGroup = (if units' = ''metric'' then ''metric'' else ''us''),
                       rq_key = trim apiKey \<rparr>
           in case retry_loop vc_isClientError vc_validateResponse net req 0 None [] of
                (Inl err, tr) \<Rightarrow> (Inl err, tr)
              | (Inr data, tr) \<Rightarrow>
                  (case formatWeatherData Date_parse today data of
                     Inl err \<Rightarrow> (Inl (Thrown err), tr)
                   | Inr formatted \<Rightarrow> (Inr (Data formatted ''visualcrossing''), tr))))"

definition fetchWeather ::
  "(real \<Rightarrow> real \<Rightarrow> validation) \<Rightarrow> (string \<Rightarrow> int option) \<Rightarrow> int \<Rightarrow> (nat \<Rightarrow> vc_payload attempt) \<Rightarrow>
   real \<Rightarrow> real \<Rightarrow> string option \<Rightarrow> string \<Rightarrow> vc_formatted outcome promise \<times> vc_request event list" where
  "fetchWeather validateCoordinates Date_parse today net latitude longitude apiKey units =
     (if \<not> truthy apiKey \<or> trim (the apiKey) = [] then
        (Resolved (ErrorResult ''Visual Crossing API key erforderlich'' ''visualcrossing''), [])
      else
        (case fetchWeather_try validateCoordinates Date_parse today net latitude longitude
                (the apiKey) units of
           (Inr result, tr) \<Rightarrow> (Resolved result, tr)
         | (Inl error, tr) \<Rightarrow>
             (case read_message error of
                Inr msg \<Rightarrow> (Resolved (ErrorResult msg ''visualcrossing''), tr)
              | Inl err \<Rightarrow> (Rejected (Thrown err), tr))))"


section \<open>Meteostat: \<open>MeteostatAPI\<close>\<close>

text \<open>The pattern of \<open>fetchHistorical\<close> for the errors it does not retry.\<close>

definition ms_isClientError :: "string \<Rightarrow> bool" where
  "ms_isClientError msg =
     (http_fehler_4xx msg \<or> str_includes msg ''401'' \<or> str_includes msg ''403'' \<or>
      str_includes msg ''404'' \<or> str_includes msg ''429'' \<or> str_includes msg ''API key'' \<or>
      str_includes msg ''Invalid'')"

text \<open>The regular expression \<^verbatim>\<open>^\d{4}-\d{2}-\d{2}$\<close>.\<close>

definition dateRegex :: "string \<Rightarrow> bool" where
  "dateRegex s =
     (case s of
        [y1, y2, y3, y4, h1, m1, m2, h2, d1, d2] \<Rightarrow>
          is_digit y1 \<and> is_digit y2 \<and> is_digit y3 \<and> is_digit y4 \<and> h1 = CHR ''-'' \<and>
          is_digit m1 \<and> is_digit m2 \<and> h2 = CHR ''-'' \<and> is_digit d1 \<and> is_digit d2
      | _ \<Rightarrow> False)"

text \<open>\<^verbatim>\<open>Math.ceil(a / b)\<close> for integers \<open>a\<close> and a positive integer \<open>b\<close>.\<close>

definition ceil_div :: "int \<Rightarrow> int \<Rightarrow> int" where
  "ceil_div a b = - ((- a) div b)"

text \<open>
  \<open>_validateDates\<close>. A date is \<open>None\<close> when it is not a string. \<open>Date_parse\<close> is
  \<^verbatim>\<open>new Date(s).getTime()\<close> of the engine, \<open>None\<close> for \<open>NaN\<close>.
\<close>

definition validateDates ::
  "(string \<Rightarrow> int option) \<Rightarrow> string option \<Rightarrow> string option \<Rightarrow> validation" where
  "validateDates Date_parse startDate endDate =
     (if \<not> truthy startDate then Some ''Startdatum erforderlich (Format: YYYY-MM-DD)''
      else if \<not> truthy endDate then Some ''Enddatum erforderlich (Format: YYYY-MM-DD)''
      else if \<not> dateRegex (the startDate) \<or> \<not> dateRegex (the endDate) then
        Some (''Ung'' @ [CHR 0xC3, CHR 0xBC] @ ''ltiges Datumformat (erwartet: YYYY-MM-DD)'')
      else
        (case (Date_parse (the startDate), Date_parse (the endDate)) of
           (Some start, Some end) \<Rightarrow>
             if start > end then Some ''Startdatum muss vor Enddatum liegen''
             else
               (let diffTime = \<bar>end - start\<bar>;
                    diffDays = ceil_div diffTime (1000 * 60 * 60 * 24)
                in if diffDays > 365 then
                     Some (''Zeitraum darf 365 Tage nicht '' @ [CHR 0xC3, CHR 0xBC] @
                           ''berschreiten'')
                   else None)
         | _ \<Rightarrow> Some (''Ung'' @ [CHR 0xC3, CHR 0xBC] @ ''ltige Datumswerte'')))"

text \<open>
  The payload. A number is \<open>None\<close> when it is \<open>null\<close>; \<open>ms_data\<close> is \<open>None\<close> when
  \<open>data\<close> is absent or \<open>null\<close>, so not an array.
\<close>

record ms_day =
  m_date :: "string option"
  tmin :: "real option"
  tmax :: "real option"
  tavg :: "real option"
  prcp :: "real option"
  wspd :: "real option"
  wdir :: "real option"
  pres :: "real option"

record ms_payload =
  ms_error :: "string option"
  ms_data :: "ms_day list option"

definition ms_validateResponse :: "ms_payload option \<Rightarrow> validation" where
  "ms_validateResponse data =
     (case data of
        None \<Rightarrow> Some ''Keine Daten von Meteostat erhalten''
      | Some d \<Rightarrow>
          if truthy (ms_error d) then Some (''Meteostat: '' @ the (ms_error d))
          else
            (case ms_data d of
               None \<Rightarrow> Some (''Ung'' @ [CHR 0xC3, CHR 0xBC] @
                             ''ltige Meteostat Antwort: Keine Datenarray'')
             | Some ds \<Rightarrow>
                 if length ds = 0 then
                   Some (''Meteostat: Keine Daten f'' @ [CHR 0xC3, CHR 0xBC] @
                         ''r den angegebenen Zeitraum'')
                 else None))"

definition mapPrecipitationToCode :: "real option \<Rightarrow> nat" where
  "mapPrecipitationToCode precip =
     (case precip of
        None \<Rightarrow> 0
      | Some p \<Rightarrow>
          if p = 0 then 0
          else if p < 2 then 61
          else if p < 5 then 63
          else 65)"

record ms_daily =
  ms_date :: string
  ms_temp_min :: "real option"
  ms_temp_max :: "real option"
  ms_temp_avg :: "real option"
  ms_precipitation :: real
  ms_wind_speed :: "real option"
  ms_wind_direction :: "real option"
  ms_pressure :: "real option"
  ms_weather_code :: nat

definition ms_format_day :: "ms_day \<Rightarrow> ms_daily" where
  "ms_format_day day =
     \<lparr> ms_date = (if truthy (m_date day) then the (m_date day) else []),
       ms_temp_min = tmin day,
       ms_temp_max = tmax day,
       ms_temp_avg = tavg day,
       ms_precipitation = (case prcp day of None \<Rightarrow> 0 | Some p \<Rightarrow> p),
       ms_wind_speed = (case wspd day of None \<Rightarrow> None | Some w \<Rightarrow> Some (w / 3.6)),
       ms_wind_direction = wdir day,
       ms_pressure = pres day,
       ms_weather_code = mapPrecipitationToCode (prcp day) \<rparr>"

text \<open>\<open>_formatHistoricalData\<close>; its result is the object \<^verbatim>\<open>{ daily }\<close>.\<close>

definition formatHistoricalData :: "ms_payload option \<Rightarrow> js_error + ms_daily list" where
  "formatHistoricalData data =
     (case data of
        None \<Rightarrow> Inl (TypeError ''Cannot read properties of null'')
      | Some d \<Rightarrow> Inr (map ms_format_day (case ms_data d of None \<Rightarrow> [] | Some ds \<Rightarrow> ds)))"

text \<open>The body and the headers of the request of \<open>fetchHistorical\<close>.\<close>

record ms_request =
  rq_start :: string
  rq_end :: string
  rq_lon :: real
  rq_lat :: real
  rq_unit :: string
  rq_api_key :: "string option"

definition fetchHistorical_try ::
  "(real \<Rightarrow> real \<Rightarrow> validation) \<Rightarrow> (string \<Rightarrow> int option) \<Rightarrow> (nat \<Rightarrow> ms_payload attempt) \<Rightarrow>
   real \<Rightarrow> real \<Rightarrow> string option \<Rightarrow> string option \<Rightarrow> string option \<Rightarrow>
   (thrown + ms_daily list outcome) \<times> ms_request event list" where
  "fetchHistorical_try validateCoordinates Date_parse net latitude longitude startDate endDate
     apiKey =
     (case validateCoordinates latitude longitude of
        Some e \<Rightarrow> (Inl (Thrown (Error e)), [])
      | None \<Rightarrow>
          (case validateDates Date_parse startDate endDate of
             Some e \<Rightarrow> (Inl (Thrown (Error e)), [])
           | None \<Rightarrow>
               (let req = \<lparr> rq_start = the startDate, rq_end = the endDate,
                            rq_lon = longitude, rq_lat = latitude, rq_unit = ''metric'',
                            rq_api_key =
                              (if truthy apiKey \<and> length (trim (the apiKey)) > 0
                               then Some (trim (the apiKey)) else None) \<rparr>
                in case retry_loop ms_isClientError ms_validateResponse net req 0 None [] of
                     (Inl err, tr) \<Rightarrow> (Inl err, tr)
                   | (Inr data, tr) \<Rightarrow>
                       (case formatHistoricalData data of
                          Inl err \<Rightarrow> (Inl (Thrown err), tr)
                        | Inr daily \<Rightarrow> (Inr (Data daily ''meteostat''), tr)))))"

definition fetchHistorical ::
  "(real \<Rightarrow> real \<Rightarrow> validation) \<Rightarrow> (string \<Rightarrow> int option) \<Rightarrow> (nat \<Rightarrow> ms_payload attempt) \<Rightarrow>
   real \<Rightarrow> real \<Rightarrow> string option \<Rightarrow> string option \<Rightarrow> string option \<Rightarrow>
   ms_daily list outcome promise \<times> ms_request event list" where
  "fetchHistorical validateCoordinates Date_parse net latitude longitude startDate endDate
     apiKey =
     (case fetchHistorical_try validateCoordinates Date_parse net latitude longitude startDate
             endDate apiKey of
        (Inr result, tr) \<Rightarrow> (Resolved result, tr)
      | (Inl error, tr) \<Rightarrow>
          (case read_message error of
             Inr msg \<Rightarrow> (Resolved (ErrorResult msg ''meteostat''), tr)
           | Inl err \<Rightarrow> (Rejected (Thrown err), tr)))"

text \<open>
  What the body of the inner \<^verbatim>\<open>try\<close> throws on the result of a request, if it fails:
  what the request itself threw, or the error made from the message of
  \<open>_validateResponse\<close>.
\<close>

definition failure :: "('p option \<Rightarrow> validation) \<Rightarrow> 'p attempt \<Rightarrow> thrown option" where
  "failure validateResponse r =
     (case fst (try_attempt validateResponse r None) of Inl e \<Rightarrow> Some e | Inr _ \<Rightarrow> None)"

text \<open>The requests and the waits of a list of events.\<close>

definition fetches :: "'q event list \<Rightarrow> 'q list" where
  "fetches tr = concat (map (\<lambda>ev. case ev of Fetch q \<Rightarrow> [q] | Wait _ \<Rightarrow> []) tr)"

definition waits :: "'q event list \<Rightarrow> nat list" where
  "waits tr = concat (map (\<lambda>ev. case ev of Fetch _ \<Rightarrow> [] | Wait n \<Rightarrow> [n]) tr)"

section \<open>Sunrise-Sunset and BigDataCloud: one request, no retry\<close>

text \<open>\<open>a || b\<close> on strings that may be absent.\<close>

definition or_else :: "string option \<Rightarrow> string option \<Rightarrow> string option" where
  "or_else a b = (if truthy a then a else b)"

record sun_results =
  sunrise :: "string option"
  sunset :: "string option"
  solar_noon :: "string option"
  day_length :: "real option"
  civil_twilight_begin :: "string option"
  civil_twilight_end :: "string option"
  nautical_twilight_begin :: "string option"
  nautical_twilight_end :: "string option"
  astronomical_twilight_begin :: "string option"
  astronomical_twilight_end :: "string option"

record sun_payload =
  sun_status :: "string option"
  sun_error :: "string option"
  results :: "sun_results option"

record sun_normalized =
  n_sunrise :: "string option"
  n_sunset :: "string option"
  solarNoon :: "string option"
  dayLengthSeconds :: "real option"
  civil :: "string option \<times> string option"
  nautical :: "string option \<times> string option"
  astronomical :: "string option \<times> string option"

text \<open>
  \<open>SunriseSunsetAPI._normalize\<close>. \<open>day_length\<close> is \<open>None\<close> when
  \<^verbatim>\<open>Number(results.day_length)\<close> is \<open>NaN\<close>; the pairs are \<^verbatim>\<open>{ dawn, dusk }\<close>.
\<close>

definition sun_normalize :: "sun_results \<Rightarrow> sun_normalized" where
  "sun_normalize r =
     \<lparr> n_sunrise = sunrise r,
       n_sunset = sunset r,
       solarNoon = solar_noon r,
       dayLengthSeconds = (case day_length r of None \<Rightarrow> None
                           | Some n \<Rightarrow> if n = 0 then None else Some n),
       civil = (civil_twilight_begin r, civil_twilight_end r),
       nautical = (nautical_twilight_begin r, nautical_twilight_end r),
       astronomical = (astronomical_twilight_begin r, astronomical_twilight_end r) \<rparr>"

text \<open>The object \<^verbatim>\<open>{}\<close> that stands for absent \<open>results\<close>.\<close>

definition no_results :: sun_results where
  "no_results =
     \<lparr> sunrise = None, sunset = None, solar_noon = None, day_length = None,
       civil_twilight_begin = None, civil_twilight_end = None,
       nautical_twilight_begin = None, nautical_twilight_end = None,
       astronomical_twilight_begin = None, astronomical_twilight_end = None \<rparr>"

text \<open>The query parameters of the two requests.\<close>

record sun_request =
  sq_lat :: real
  sq_lng :: real
  sq_key :: "string option"

record bdc_request =
  bq_latitude :: real
  bq_longitude :: real
  bq_localityLanguage :: string
  bq_key :: "string option"

definition fetchSunEvents_try ::
  "(real \<Rightarrow> real \<Rightarrow> validation) \<Rightarrow> sun_payload attempt \<Rightarrow> real \<Rightarrow> real \<Rightarrow> string option \<Rightarrow>
   (thrown + sun_normalized outcome) \<times> sun_request event list" where
  "fetchSunEvents_try validateCoordinates net latitude longitude apiKey =
     (case validateCoordinates latitude longitude of
        Some e \<Rightarrow> (Inl (Thrown (Error e)), [])
      | None \<Rightarrow>
          (let req = \<lparr> sq_lat = latitude, sq_lng = longitude,
                       sq_key = (if truthy apiKey then Some (trim (the apiKey)) else None) \<rparr>
           in case net of
                Threw err \<Rightarrow> (Inl err, [Fetch req])
              | Json payload \<Rightarrow>
                  (case payload of
                     None \<Rightarrow> (Inl (Thrown (Error ''SunriseSunset API Fehler'')), [Fetch req])
                   | Some p \<Rightarrow>
                       if sun_status p \<noteq> Some ''OK'' then
                         (Inl (Thrown (Error (the (or_else (sun_status p)
                                 (or_else (sun_error p) (Some ''SunriseSunset API Fehler'')))))),
                          [Fetch req])
                       else
                         (Inr (Data (sun_normalize
                                 (case results p of None \<Rightarrow> no_results | Some r \<Rightarrow> r))
                               ''sunrisesunset''),
                          [Fetch req]))))"

text \<open>
  The \<^verbatim>\<open>catch\<close> of both methods reports \<^verbatim>\<open>error.message || String(error)\<close>; when
  reading \<^verbatim>\<open>error.message\<close> throws, nothing catches it and the promise of the method
  rejects.
\<close>

definition message_or_string :: "thrown \<Rightarrow> js_error + string" where
  "message_or_string error =
     (case read_message error of
        Inl err \<Rightarrow> Inl err
      | Inr msg \<Rightarrow> Inr (if msg \<noteq> [] then msg else String_of_thrown error))"

definition fetchSunEvents ::
  "(real \<Rightarrow> real \<Rightarrow> validation) \<Rightarrow> sun_payload attempt \<Rightarrow> real \<Rightarrow> real \<Rightarrow> string option \<Rightarrow>
   sun_normalized outcome promise \<times> sun_request event list" where
  "fetchSunEvents validateCoordinates net latitude longitude apiKey =
     (case fetchSunEvents_try validateCoordinates net latitude longitude apiKey of
        (Inr result, tr) \<Rightarrow> (Resolved result, tr)
      | (Inl error, tr) \<Rightarrow>
          (case message_or_string error of
             Inr msg \<Rightarrow> (Resolved (ErrorResult msg ''sunrisesunset''), tr)
           | Inl err \<Rightarrow> (Rejected (Thrown err), tr)))"

text \<open>
  The BigDataCloud payload. An entry of \<open>localityInfo.administrative\<close> is \<open>None\<close> when it
  is \<open>null\<close>; \<open>b_timezone\<close> holds \<open>ianaTimezone\<close> and \<open>name\<close>; \<open>b_latitude\<close> is
  \<open>None\<close> when \<open>latitude\<close> is \<open>undefined\<close>. A payload that is not an object has no
  \<open>latitude\<close>.
\<close>

record bdc_payload =
  b_latitude :: "real option"
  b_longitude :: "real option"
  city :: "string option"
  locality :: "string option"
  principalSubdivision :: "string option"
  continent :: "string option"
  countryName :: "string option"
  countryCode :: "string option"
  plusCode :: "string option"
  postcode :: "string option"
  b_timezone :: "(string option \<times> string option) option"
  confidence :: "string option"
  administrative :: "string option option list option"

record bdc_normalized =
  n_city :: "string option"
  n_locality :: "string option"
  region :: "string option"
  n_continent :: "string option"
  country :: "string option"
  n_countryCode :: "string option"
  n_plusCode :: "string option"
  n_postcode :: "string option"
  timezone :: "string option"
  n_confidence :: "string option"
  subdivisions :: "string list"
  n_latitude :: "real option"
  n_longitude :: "real option"

text \<open>
  \<open>BigDataCloudAPI._normalize\<close>, without the field \<open>countryFlag\<close> (computed from
  \<open>countryCode\<close> by \<open>_countryFlag\<close>, which has no failing path).
  \<^verbatim>\<open>adminEntries.map((entry) => entry.name)\<close> throws on a \<open>null\<close> entry.
\<close>

definition bdc_normalize :: "bdc_payload \<Rightarrow> js_error + bdc_normalized" where
  "bdc_normalize payload =
     (let adminEntries = (case administrative payload of None \<Rightarrow> [] | Some es \<Rightarrow> es);
          adminTop_name = (case adminEntries of [] \<Rightarrow> None | None # _ \<Rightarrow> None
                           | Some n # _ \<Rightarrow> n)
      in if None \<in> set adminEntries then
           Inl (TypeError ''Cannot read properties of null'')
         else
           Inr \<lparr> n_city = or_else (city payload) (or_else (locality payload)
                             (or_else adminTop_name (principalSubdivision payload))),
                 n_locality = locality payload,
                 region = or_else (principalSubdivision payload) adminTop_name,
                 n_continent = continent payload,
                 country = countryName payload,
                 n_countryCode = countryCode payload,
                 n_plusCode = plusCode payload,
                 n_postcode = postcode payload,
                 timezone = (case b_timezone payload of None \<Rightarrow> None
                             | Some (iana, name) \<Rightarrow> or_else iana name),
                 n_confidence = confidence payload,
                 subdivisions =
                   take 3 (map the (filter truthy (map the adminEntries))),
                 n_latitude = b_latitude payload,
                 n_longitude = b_longitude payload \<rparr>)"

definition fetchLocationDetails_try ::
  "(real \<Rightarrow> real \<Rightarrow> validation) \<Rightarrow> bdc_payload attempt \<Rightarrow> real \<Rightarrow> real \<Rightarrow> string option \<Rightarrow>
   string option \<Rightarrow> (thrown + bdc_normalized outcome) \<times> bdc_request event list" where
  "fetchLocationDetails_try validateCoordinates net latitude longitude apiKey language =
     (case validateCoordinates latitude longitude of
        Some e \<Rightarrow> (Inl (Thrown (Error e)), [])
      | None \<Rightarrow>
          (let req = \<lparr> bq_latitude = latitude, bq_longitude = longitude,
                       bq_localityLanguage = the (or_else language (Some ''en'')),
                       bq_key = (if truthy apiKey then Some (trim (the apiKey)) else None) \<rparr>
           in case net of
                Threw err \<Rightarrow> (Inl err, [Fetch req])
              | Json payload \<Rightarrow>
                  (case payload of
                     None \<Rightarrow>
                       (Inl (Thrown (Error (''Ung'' @ [CHR 0xC3, CHR 0xBC] @
                                    ''ltige BigDataCloud Antwort''))), [Fetch req])
                   | Some p \<Rightarrow>
                       if b_latitude p = None then
                         (Inl (Thrown (Error (''Ung'' @ [CHR 0xC3, CHR 0xBC] @
                                      ''ltige BigDataCloud Antwort''))), [Fetch req])
                       else
                         (case bdc_normalize p of
                            Inl err \<Rightarrow> (Inl (Thrown err), [Fetch req])
                          | Inr normalized \<Rightarrow>
                              (Inr (Data normalized ''bigdatacloud''), [Fetch req])))))"

definition fetchLocationDetails ::
  "(real \<Rightarrow> real \<Rightarrow> validation) \<Rightarrow> bdc_payload attempt \<Rightarrow> real \<Rightarrow> real \<Rightarrow> string option \<Rightarrow>
   string option \<Rightarrow> bdc_normalized outcome promise \<times> bdc_request event list" where
  "fetchLocationDetails validateCoordinates net latitude longitude apiKey language =
     (case fetchLocationDetails_try validateCoordinates net latitude longitude apiKey language of
        (Inr result, tr) \<Rightarrow> (Resolved result, tr)
      | (Inl error, tr) \<Rightarrow>
          (case message_or_string error of
             Inr msg \<Rightarrow> (Resolved (ErrorResult msg ''bigdatacloud''), tr)
           | Inl err \<Rightarrow> (Rejected (Thrown err), tr)))"

section \<open>The service worker: \<open>src/service-worker.js\<close>\<close>

subsection \<open>The \<open>fetch\<close> handler\<close>

text \<open>
  A request with its method and the parts of its URL that the handler reads, and a
  response. The caches are a map from the URL under which a response was stored to that
  response; \<open>caches.match\<close> looks the URL of the request up, and finds nothing for a
  request whose method is not \<open>GET\<close>. (Fragments of URLs and \<open>Vary\<close> headers are left
  out.) \<open>fetch(request)\<close> gives a response or rejects. The promises of the Cache API
  reject when the cache storage fails; which of its operations fail is given from outside.
\<close>

record sw_request =
  url :: string
  req_method :: string
  protocol :: string
  origin :: string

record sw_response =
  status :: nat
  statusText :: string
  rtype :: string
  body :: string

type_synonym caches = "string \<rightharpoonup> sw_response"

record cache_faults =
  match_fails :: bool
  put_fails :: bool

text \<open>
  \<^verbatim>\<open>caches.match(request)\<close>: the promise rejects, or resolves to the stored response or
  to \<open>undefined\<close>.
\<close>

definition caches_match :: "cache_faults \<Rightarrow> caches \<Rightarrow> sw_request \<Rightarrow> js_error + sw_response option" where
  "caches_match faults caches request =
     (if match_fails faults then Inl (JsError ''DOMException'' [])
      else Inr (if req_method request = ''GET'' then caches (url request) else None))"

definition is_api_request :: "sw_request \<Rightarrow> bool" where
  "is_api_request request =
     (str_includes (url request) ''api.open-meteo.com'' \<or>
      str_includes (url request) ''api.brightsky.dev'' \<or>
      str_includes (url request) ''nominatim.openstreetmap.org'' \<or>
      str_includes (url request) ''geocoding-api.open-meteo.com'')"

definition offline_response :: sw_response where
  "offline_response =
     \<lparr> status = 503, statusText = ''Service Unavailable'', rtype = ''default'',
       body = ''Offline - Diese Seite ist im Offline-Modus nicht verf'' @ [CHR 0xC3, CHR 0xBC] @
              ''gbar'' \<rparr>"

text \<open>
  What the handler does with the event: it returns without answering (the browser handles
  the request itself), or it calls \<open>respondWith\<close> with a promise. The promise is
  \<^verbatim>\<open>fetch(request).then(...).catch(...)\<close>. A failing \<open>cache.put\<close> in the first callback
  is caught and logged, and the response is returned all the same. The second callback
  returns \<^verbatim>\<open>caches.match(request).then(...)\<close>, and nothing follows it: when
  \<open>caches.match\<close> rejects, so does the promise given to \<open>respondWith\<close>.
\<close>

datatype handled = NotIntercepted | RespondWith "sw_response promise"

definition on_fetch ::
  "string \<Rightarrow> (sw_request \<Rightarrow> js_error + sw_response) \<Rightarrow> cache_faults \<Rightarrow> caches \<Rightarrow> sw_request \<Rightarrow>
   handled \<times> caches" where
  "on_fetch self_origin fetch faults caches request =
     (if is_api_request request then (NotIntercepted, caches)
      else
        (case fetch request of
           Inr response \<Rightarrow>
             (RespondWith (Resolved response),
              if status response = 200 \<and> rtype response \<noteq> ''error'' \<and>
                 (protocol request = ''http:'' \<or> protocol request = ''https:'') \<and>
                 origin request = self_origin \<and> \<not> put_fails faults
              then caches(url request \<mapsto> response) else caches)
         | Inl error \<Rightarrow>
             (case caches_match faults caches request of
                Inl err \<Rightarrow> (RespondWith (Rejected (Thrown err)), caches)
              | Inr (Some response) \<Rightarrow> (RespondWith (Resolved response), caches)
              | Inr None \<Rightarrow> (RespondWith (Resolved offline_response), caches))))"

subsection \<open>The store of failed requests and \<open>retryFailedRequests\<close>\<close>

text \<open>
  An entry of the object store \<open>failedRequests\<close> (key path \<open>id\<close>). The service worker
  reads \<open>id\<close>, \<open>url\<close> and \<open>options\<close> of an entry.

  Modelled from the spec: the field \<open>attempts\<close>, the counter that the data model gives a
  queued request. The code that creates the entries is not part of the sources at hand,
  and no line of the service worker reads or writes the field.
\<close>

record failed_request =
  fr_id :: nat
  fr_url :: string
  fr_options :: string
  attempts :: nat

text \<open>
  The requests of IndexedDB succeed or fail; which ones fail is given from outside.
\<close>

record idb_faults =
  open_fails :: bool
  getAll_fails :: bool
  delete_fails :: "nat \<Rightarrow> bool"

definition openIndexedDB :: "idb_faults \<Rightarrow> js_error + unit" where
  "openIndexedDB faults =
     (if open_fails faults then Inl (JsError ''DOMException'' []) else Inr ())"

definition getFailedRequests ::
  "idb_faults \<Rightarrow> failed_request list \<Rightarrow> js_error + failed_request list" where
  "getFailedRequests faults store =
     (if getAll_fails faults then Inl (JsError ''DOMException'' []) else Inr store)"

definition removeFailedRequest ::
  "idb_faults \<Rightarrow> failed_request list \<Rightarrow> nat \<Rightarrow> js_error + failed_request list" where
  "removeFailedRequest faults store id' =
     (if delete_fails faults id' then Inl (JsError ''DOMException'' [])
      else Inr (filter (\<lambda>r. fr_id r \<noteq> id') store))"

text \<open>
  \<open>fetch(req.url, req.options)\<close>: it rejects, or gives a response that is \<open>ok\<close> or not.
  The \<open>fetch\<close> of the platform rejects with an \<open>Error\<close> object.
\<close>

datatype fetch_result = FetchThrew js_error | FetchResponse bool

text \<open>
  The \<^verbatim>\<open>for (const req of failedRequests)\<close> loop over the entries read at the start.
  \<open>net\<close> gives the result of the request sent for an entry; \<open>calls\<close> records the
  requests sent, as the pairs of \<open>url\<close> and \<open>options\<close>.
\<close>

fun retry_each ::
  "idb_faults \<Rightarrow> (failed_request \<Rightarrow> fetch_result) \<Rightarrow> failed_request list \<Rightarrow>
   failed_request list \<Rightarrow> (string \<times> string) list \<Rightarrow> failed_request list \<times> (string \<times> string) list" where
  "retry_each faults net [] store calls = (store, calls)"
| "retry_each faults net (req # rest) store calls =
     (case net req of
        FetchThrew err \<Rightarrow>
          retry_each faults net rest store (calls @ [(fr_url req, fr_options req)])
      | FetchResponse ok \<Rightarrow>
          if ok then
            (case removeFailedRequest faults store (fr_id req) of
               Inr store' \<Rightarrow>
                 retry_each faults net rest store' (calls @ [(fr_url req, fr_options req)])
             | Inl err \<Rightarrow>
                 retry_each faults net rest store (calls @ [(fr_url req, fr_options req)]))
          else retry_each faults net rest store (calls @ [(fr_url req, fr_options req)]))"

definition retryFailedRequests ::
  "idb_faults \<Rightarrow> (failed_request \<Rightarrow> fetch_result) \<Rightarrow> failed_request list \<Rightarrow>
   failed_request list \<times> (string \<times> string) list" where
  "retryFailedRequests faults net store =
     (case openIndexedDB faults of
        Inl err \<Rightarrow> (store, [])
      | Inr db \<Rightarrow>
          (case getFailedRequests faults store of
             Inl err \<Rightarrow> (store, [])
           | Inr failedRequests \<Rightarrow> retry_each faults net failedRequests store []))"

text \<open>IndexedDB without failures.\<close>

definition no_faults :: idb_faults where
  "no_faults = \<lparr> open_fails = False, getAll_fails = False, delete_fails = (\<lambda>_. False) \<rparr>"

subsection \<open>Drains that overlap\<close>

text \<open>
  \<open>retryFailedRequests\<close> is an \<open>async\<close> function: it runs until an \<open>await\<close>, and is
  resumed when the awaited promise settles; between the two, the service worker handles
  other events. A drain in progress is at one of its \<open>await\<close>s: the opening of the
  database, the reading of the entries, the request for the entry \<open>req\<close> (with the
  entries that follow it), or the removal of \<open>req\<close>.
\<close>

datatype drain = AtOpen | AtGetAll | AtFetch failed_request "failed_request list"
  | AtRemove failed_request "failed_request list" | Finished

record sw_state =
  store :: "failed_request list"
  drains :: "drain list"
  sent :: "(string \<times> string) list"

text \<open>The head of the loop: the request for the next entry is sent, or the drain ends.\<close>

fun next_entry :: "failed_request list \<Rightarrow> sw_state \<Rightarrow> drain \<times> sw_state" where
  "next_entry [] s = (Finished, s)"
| "next_entry (req # rest) s =
     (AtFetch req rest, s\<lparr>sent := sent s @ [(fr_url req, fr_options req)]\<rparr>)"

text \<open>
  A drain is resumed at its \<open>await\<close>; \<open>r\<close> is the result of the request when the drain
  waits for one.
\<close>

fun resume :: "idb_faults \<Rightarrow> fetch_result \<Rightarrow> drain \<Rightarrow> sw_state \<Rightarrow> drain \<times> sw_state" where
  "resume faults r AtOpen s =
     (case openIndexedDB faults of Inl err \<Rightarrow> (Finished, s) | Inr db \<Rightarrow> (AtGetAll, s))"
| "resume faults r AtGetAll s =
     (case getFailedRequests faults (store s) of
        Inl err \<Rightarrow> (Finished, s)
      | Inr failedRequests \<Rightarrow> next_entry failedRequests s)"
| "resume faults r (AtFetch req rest) s =
     (case r of
        FetchThrew err \<Rightarrow> next_entry rest s
      | FetchResponse ok \<Rightarrow> if ok then (AtRemove req rest, s) else next_entry rest s)"
| "resume faults r (AtRemove req rest) s =
     (case removeFailedRequest faults (store s) (fr_id req) of
        Inr store' \<Rightarrow> next_entry rest (s\<lparr>store := store'\<rparr>)
      | Inl err \<Rightarrow> next_entry rest s)"
| "resume faults r Finished s = (Finished, s)"

text \<open>
  The events of the service worker that matter here: a \<open>sync\<close> event with its tag, and the
  settling of the promise that the \<open>i\<close>-th drain awaits. The listener for \<open>sync\<close> calls
  \<open>retryFailedRequests()\<close> when the tag is \<open>retry-failed-requests\<close>; the call runs up to
  its first \<open>await\<close>. (The other listener for \<open>sync\<close> handles the tag
  \<open>weather-update\<close> and starts no drain.)
\<close>

datatype sw_event = Sync string | Settle nat fetch_result

definition on_sync :: "string \<Rightarrow> sw_state \<Rightarrow> sw_state" where
  "on_sync tag s =
     (if tag = ''retry-failed-requests'' then s\<lparr>drains := drains s @ [AtOpen]\<rparr> else s)"

definition on_settle :: "idb_faults \<Rightarrow> nat \<Rightarrow> fetch_result \<Rightarrow> sw_state \<Rightarrow> sw_state" where
  "on_settle faults i r s =
     (if i < length (drains s) then
        (case resume faults r (drains s ! i) s of
           (d', s') \<Rightarrow> s'\<lparr>drains := (drains s')[i := d']\<rparr>)
      else s)"

fun handle :: "idb_faults \<Rightarrow> sw_event \<Rightarrow> sw_state \<Rightarrow> sw_state" where
  "handle faults (Sync tag) s = on_sync tag s"
| "handle faults (Settle i r) s = on_settle faults i r s"

definition run :: "idb_faults \<Rightarrow> sw_event list \<Rightarrow> sw_state \<Rightarrow> sw_state" where
  "run faults evs s = foldl (\<lambda>s ev. handle faults ev s) s evs"

text \<open>The drains in progress, and the entries whose request is in flight.\<close>

definition in_progress :: "sw_state \<Rightarrow> drain list" where
  "in_progress s = filter (\<lambda>d. d \<noteq> Finished) (drains s)"

definition in_flight :: "sw_state \<Rightarrow> failed_request list" where
  "in_flight s =
     concat (map (\<lambda>d. case d of AtFetch req _ \<Rightarrow> [req] | _ \<Rightarrow> []) (drains s))"

text \<open>
  The events that carry one drain through the entries \<open>snapshot\<close> when it is the first
  drain: for each entry the settling of its request with the result \<open>net\<close> gives, and,
  after an \<open>ok\<close> response, the settling of the removal.
\<close>

definition settles :: "(failed_request \<Rightarrow> fetch_result) \<Rightarrow> failed_request list \<Rightarrow> sw_event list" where
  "settles net snapshot =
     concat (map (\<lambda>req. if net req = FetchResponse True
                        then [Settle 0 (net req), Settle 0 (net req)]
                        else [Settle 0 (net req)]) snapshot)"

section \<open>Dates of the engine and units of measurement\<close>

text \<open>
  A \<open>Date_parse\<close> for strings of the form \<open>YYYY-MM-DD\<close>, as ECMAScript reads them: the
  time of midnight UTC of that day in milliseconds since 1970-01-01, and no value when the
  month or the day is out of range. The clients take the parser of the engine as a
  parameter; this one is used where a concrete one is needed.
\<close>

definition digit_val :: "char \<Rightarrow> int" where
  "digit_val c = int (of_char c) - 48"

definition is_leap :: "int \<Rightarrow> bool" where
  "is_leap y = (y mod 4 = 0 \<and> (y mod 100 \<noteq> 0 \<or> y mod 400 = 0))"

definition days_in_month :: "int \<Rightarrow> int \<Rightarrow> int" where
  "days_in_month y m =
     (if m = 2 then (if is_leap y then 29 else 28)
      else if m = 4 \<or> m = 6 \<or> m = 9 \<or> m = 11 then 30 else 31)"

text \<open>The number of days from 1970-01-01 to the day \<open>d\<close> of month \<open>m\<close> of year \<open>y\<close>.\<close>

definition days_from_civil :: "int \<Rightarrow> int \<Rightarrow> int \<Rightarrow> int" where
  "days_from_civil y m d =
     (let y' = (if m \<le> 2 then y - 1 else y);
          era = y' div 400;
          yoe = y' - era * 400;
          doy = (153 * (if m > 2 then m - 3 else m + 9) + 2) div 5 + d - 1;
          doe = yoe * 365 + yoe div 4 - yoe div 100 + doy
      in era * 146097 + doe - 719468)"

definition iso_date_ms :: "string \<Rightarrow> int option" where
  "iso_date_ms s =
     (case s of
        [y1, y2, y3, y4, h1, m1, m2, h2, d1, d2] \<Rightarrow>
          if is_digit y1 \<and> is_digit y2 \<and> is_digit y3 \<and> is_digit y4 \<and> h1 = CHR ''-'' \<and>
             is_digit m1 \<and> is_digit m2 \<and> h2 = CHR ''-'' \<and> is_digit d1 \<and> is_digit d2
          then
            (let y = 1000 * digit_val y1 + 100 * digit_val y2 + 10 * digit_val y3 + digit_val y4;
                 m = 10 * digit_val m1 + digit_val m2;
                 d = 10 * digit_val d1 + digit_val d2
             in if 1 \<le> m \<and> m \<le> 12 \<and> 1 \<le> d \<and> d \<le> days_in_month y m
                then Some (days_from_civil y m d * 86400000) else None)
          else None
      | _ \<Rightarrow> None)"













section \<open>Concrete inputs\<close>

text \<open>A \<open>validateCoordinates\<close> that accepts, and networks that answer every request alike.\<close>

definition coordinates_ok :: "real \<Rightarrow> real \<Rightarrow> validation" where
  "coordinates_ok latitude longitude = None"

definition net_down :: "nat \<Rightarrow> 'p attempt" where
  "net_down i = Threw (Thrown (TypeError ''Failed to fetch''))"

definition net_429 :: "nat \<Rightarrow> 'p attempt" where
  "net_429 i = Threw (Thrown (Error ''HTTP Fehler 429''))"


text \<open>The Visual Crossing payload \<^verbatim>\<open>{}\<close>, and the network that always answers with it.\<close>

definition vc_empty_payload :: vc_payload where
  "vc_empty_payload =
     \<lparr> errorCode = None, vc_message = None, resolvedUnit = None, currentConditions = None,
       days = None \<rparr>"

definition net_vc_empty :: "nat \<Rightarrow> vc_payload attempt" where
  "net_vc_empty i = Json (Some vc_empty_payload)"

text \<open>
  The error payload \<^verbatim>\<open>{ errorCode: "400", message: "Invalid request" }\<close> of Visual
  Crossing, and the network that always answers with it.
\<close>

definition vc_invalid_request_payload :: vc_payload where
  "vc_invalid_request_payload =
     \<lparr> errorCode = Some ''400'', vc_message = Some ''Invalid request'', resolvedUnit = None,
       currentConditions = None, days = None \<rparr>"

definition net_vc_invalid_request :: "nat \<Rightarrow> vc_payload attempt" where
  "net_vc_invalid_request i = Json (Some vc_invalid_request_payload)"






text \<open>Meteostat payloads: a reported error, no data array, and one day of data.\<close>

definition ms_invalid_key_payload :: ms_payload where
  "ms_invalid_key_payload = \<lparr> ms_error = Some ''Invalid API key'', ms_data = None \<rparr>"

definition net_ms_invalid_key :: "nat \<Rightarrow> ms_payload attempt" where
  "net_ms_invalid_key i = Json (Some ms_invalid_key_payload)"

definition ms_invalid_request_payload :: ms_payload where
  "ms_invalid_request_payload = \<lparr> ms_error = Some ''invalid request'', ms_data = None \<rparr>"

definition net_ms_invalid_request :: "nat \<Rightarrow> ms_payload attempt" where
  "net_ms_invalid_request i = Json (Some ms_invalid_request_payload)"

definition ms_empty_payload :: ms_payload where
  "ms_empty_payload = \<lparr> ms_error = None, ms_data = None \<rparr>"

definition net_ms_empty :: "nat \<Rightarrow> ms_payload attempt" where
  "net_ms_empty i = Json (Some ms_empty_payload)"


text \<open>An entry of the store of failed requests, and networks for its replay.\<close>

definition queued_1 :: failed_request where
  "queued_1 = \<lparr> fr_id = 1, fr_url = ''/api/favorites'', fr_options = ''{}'', attempts = 0 \<rparr>"

definition queued_2 :: failed_request where
  "queued_2 = \<lparr> fr_id = 2, fr_url = ''/api/settings'', fr_options = ''{}'', attempts = 0 \<rparr>"

definition replay_fails :: "failed_request \<Rightarrow> fetch_result" where
  "replay_fails req = FetchThrew (TypeError ''Failed to fetch'')"

definition replay_ok :: "failed_request \<Rightarrow> fetch_result" where
  "replay_ok req = FetchResponse True"

definition replay_first_ok :: "failed_request \<Rightarrow> fetch_result" where
  "replay_first_ok req = (if fr_id req = 1 then FetchResponse True else FetchResponse False)"

text \<open>
  Two \<open>sync\<close> events for the retry, the second while the drain of the first awaits its
  request; each drain is resumed twice, after the opening and after the reading.
\<close>

definition overlapping_syncs :: "sw_event list" where
  "overlapping_syncs =
     [Sync ''retry-failed-requests'', Settle 0 (FetchResponse True), Settle 0 (FetchResponse True),
      Sync ''retry-failed-requests'', Settle 1 (FetchResponse True), Settle 1 (FetchResponse True)]"

definition one_queued :: sw_state where
  "one_queued = \<lparr> store = [queued_1], drains = [], sent = [] \<rparr>"

text \<open>A page of the application, a cached copy of it, and a network that is down.\<close>

definition page_request :: sw_request where
  "page_request =
     \<lparr> url = ''https://calchas.example/src/app.js'', req_method = ''GET'',
       protocol = ''https:'',
       origin = ''https://calchas.example'' \<rparr>"

definition cached_page :: sw_response where
  "cached_page = \<lparr> status = 200, statusText = ''OK'', rtype = ''basic'', body = ''app'' \<rparr>"

definition fetch_fails :: "sw_request \<Rightarrow> js_error + sw_response" where
  "fetch_fails request = Inl (TypeError ''Failed to fetch'')"

text \<open>The cache storage working, and the cache storage whose lookups fail.\<close>

definition cache_works :: cache_faults where
  "cache_works = \<lparr> match_fails = False, put_fails = False \<rparr>"

definition cache_broken :: cache_faults where
  "cache_broken = \<lparr> match_fails = True, put_fails = True \<rparr>"

text \<open>The service worker while one drain awaits the request for its only entry.\<close>

definition draining :: sw_state where
  "draining =
     \<lparr> store = [queued_1], drains = [AtFetch queued_1 []],
       sent = [(''/api/favorites'', ''{}'')] \<rparr>"

text \<open>The same with two entries in the store, the second one still to be requested.\<close>

definition draining_two :: sw_state where
  "draining_two =
     \<lparr> store = [queued_1, queued_2], drains = [AtFetch queued_1 [queued_2]],
       sent = [(''/api/favorites'', ''{}'')] \<rparr>"

section \<open>The retry loop, step by step\<close>


lemma try_attempt_fst: "fst (try_attempt v r data) = fst (try_attempt v r None)"
  by (simp add: try_attempt_def split: attempt.splits option.splits)

lemma caught_message_Thrown [simp]: "caught_message (Thrown e) = message e"
  by (simp add: caught_message_def)

lemma read_message_Thrown [simp]: "read_message (Thrown e) = Inr (message e)"
  by (simp add: read_message_def)

lemma try_attempt_failure:
  "failure v r = Some e \<Longrightarrow> \<exists>d. try_attempt v r data = (Inl e, d)"
  by (auto simp: failure_def try_attempt_def split: attempt.splits option.splits sum.splits)

lemma try_attempt_success:
  "failure v r = None \<Longrightarrow> \<exists>d. r = Json d \<and> v d = None \<and> try_attempt v r data = (Inr (), d)"
  by (auto simp: failure_def try_attempt_def split: attempt.splits option.splits sum.splits)

lemma retry_loop_stop:
  assumes "attempt < maxAttempts" "failure v (net attempt) = Some e"
    "isCE (caught_message e) \<or> attempt + 1 \<ge> maxAttempts"
  shows "retry_loop isCE v net req attempt data tr = (Inl e, tr @ [Fetch req])"
proof -
  obtain d where "try_attempt v (net attempt) data = (Inl e, d)"
    using try_attempt_failure[OF assms(2)] by blast
  then have t: "try_attempt v (net attempt) data = (Inl e, d)" .
  have "isCE (caught_message e) \<or> maxAttempts \<le> Suc attempt" using assms(3) by simp
  then show ?thesis
    by (subst retry_loop.simps) (simp add: Let_def t assms(1))
qed

lemma retry_loop_again:
  assumes "attempt < maxAttempts" "failure v (net attempt) = Some e"
    "\<not> isCE (caught_message e)" "attempt + 1 < maxAttempts"
  shows "\<exists>d. retry_loop isCE v net req attempt data tr =
           retry_loop isCE v net req (attempt + 1) d (tr @ [Fetch req, Wait (200 * 2 ^ attempt)])"
proof -
  obtain d where d: "try_attempt v (net attempt) data = (Inl e, d)"
    using try_attempt_failure[OF assms(2)] by blast
  have "retry_loop isCE v net req attempt data tr =
           retry_loop isCE v net req (attempt + 1) d (tr @ [Fetch req, Wait (200 * 2 ^ attempt)])"
  proof -
    have n: "\<not> maxAttempts \<le> Suc attempt" using assms(4) by simp
    show ?thesis
      by (subst retry_loop.simps) (simp add: Let_def d assms(1,3) n)
  qed
  then show ?thesis by blast
qed

lemma retry_loop_success:
  assumes "attempt < maxAttempts" "failure v (net attempt) = None"
  shows "\<exists>d. net attempt = Json d \<and> v d = None \<and>
           retry_loop isCE v net req attempt data tr = (Inr d, tr @ [Fetch req])"
proof -
  obtain d where d: "net attempt = Json d" "v d = None"
    and t: "try_attempt v (net attempt) data = (Inr (), d)"
    using try_attempt_success[OF assms(2)] by blast
  have "retry_loop isCE v net req attempt data tr = (Inr d, tr @ [Fetch req])"
    by (subst retry_loop.simps) (simp add: t assms(1))
  with d show ?thesis by blast
qed

lemma retry_loop_transient:
  assumes e0: "failure v (net 0) = Some e0" "\<not> isCE (caught_message e0)"
    and e1: "failure v (net 1) = Some e1" "\<not> isCE (caught_message e1)"
    and e2: "failure v (net 2) = Some e2"
  shows "retry_loop isCE v net req 0 data tr =
           (Inl e2, tr @ [Fetch req, Wait 200, Fetch req, Wait 400, Fetch req])"
proof -
  have lt: "0 < maxAttempts" "1 < maxAttempts" "2 < maxAttempts" "0 + 1 < maxAttempts"
    "1 + 1 < maxAttempts"
    by (simp_all add: maxAttempts_def)
  obtain d0 where s0: "retry_loop isCE v net req 0 data tr =
      retry_loop isCE v net req (0 + 1) d0 (tr @ [Fetch req, Wait (200 * 2 ^ 0)])"
    using retry_loop_again[where attempt=0 and net=net and v=v and isCE=isCE and e=e0
        and req=req and data=data and tr=tr, OF lt(1) e0 lt(4)] by blast
  obtain d1 where s1: "retry_loop isCE v net req 1 d0 (tr @ [Fetch req, Wait 200]) =
      retry_loop isCE v net req (1 + 1) d1
        ((tr @ [Fetch req, Wait 200]) @ [Fetch req, Wait (200 * 2 ^ 1)])"
    using retry_loop_again[where attempt=1 and net=net and v=v and isCE=isCE and e=e1
        and req=req and data=d0 and tr="tr @ [Fetch req, Wait 200]", OF lt(2) e1 lt(5)]
    by blast
  have s2: "retry_loop isCE v net req 2 d1 (tr @ [Fetch req, Wait 200, Fetch req, Wait 400]) =
      (Inl e2, (tr @ [Fetch req, Wait 200, Fetch req, Wait 400]) @ [Fetch req])"
    by (rule retry_loop_stop[where attempt=2 and net=net and v=v and isCE=isCE and e=e2
          and req=req and data=d1, OF lt(3) e2])
       (simp add: maxAttempts_def)
  show ?thesis
    using s0 s1 s2 by (simp add: numeral_2_eq_2[symmetric])
qed

text \<open>The loop only appends events, and a loop that runs starts with a request.\<close>

lemma retry_loop_first_fetch:
  assumes "attempt < maxAttempts"
  shows "\<exists>rest. snd (retry_loop isCE v net req attempt data tr) = tr @ Fetch req # rest"
  using assms
proof (induction "maxAttempts - attempt" arbitrary: attempt data tr)
  case 0
  then show ?case by simp
next
  case (Suc n)
  show ?case
  proof (cases "failure v (net attempt)")
    case None
    then show ?thesis
      using retry_loop_success[where attempt=attempt and v=v and net=net and isCE=isCE
          and req=req and data=data and tr=tr, OF Suc.prems]
      by auto
  next
    case (Some e)
    show ?thesis
    proof (cases "isCE (caught_message e) \<or> attempt + 1 \<ge> maxAttempts")
      case True
      then show ?thesis
        using retry_loop_stop[where attempt=attempt and v=v and net=net and isCE=isCE
            and req=req and data=data and tr=tr and e=e, OF Suc.prems Some]
        by simp
    next
      case False
      then have n: "\<not> isCE (caught_message e)" and lt: "attempt + 1 < maxAttempts" by simp_all
      obtain d where step: "retry_loop isCE v net req attempt data tr =
          retry_loop isCE v net req (attempt + 1) d (tr @ [Fetch req, Wait (200 * 2 ^ attempt)])"
        using retry_loop_again[where attempt=attempt and v=v and net=net and isCE=isCE
            and req=req and data=data and tr=tr and e=e, OF Suc.prems Some n lt]
        by blast
      have "n = maxAttempts - (attempt + 1)" using Suc.hyps(2) by simp
      from Suc.hyps(1)[OF this lt, of d "tr @ [Fetch req, Wait (200 * 2 ^ attempt)]"]
      show ?thesis unfolding step by auto
    qed
  qed
qed

lemma retry_loop_second_fetch:
  assumes "failure v (net 0) = Some e" "\<not> isCE (caught_message e)"
  shows "\<exists>rest. snd (retry_loop isCE v net req 0 data tr) =
           tr @ Fetch req # Wait 200 # Fetch req # rest"
proof -
  have lt: "0 < maxAttempts" "0 + 1 < maxAttempts" "1 < maxAttempts"
    by (simp_all add: maxAttempts_def)
  obtain d where step: "retry_loop isCE v net req 0 data tr =
      retry_loop isCE v net req (0 + 1) d (tr @ [Fetch req, Wait (200 * 2 ^ 0)])"
    using retry_loop_again[where attempt=0 and v=v and net=net and isCE=isCE
        and req=req and data=data and tr=tr and e=e, OF lt(1) assms lt(2)]
    by blast
  obtain rest where "snd (retry_loop isCE v net req 1 d (tr @ [Fetch req, Wait 200])) =
      (tr @ [Fetch req, Wait 200]) @ Fetch req # rest"
    using retry_loop_first_fetch[where attempt=1 and isCE=isCE and v=v and net=net and req=req
        and data=d and tr="tr @ [Fetch req, Wait 200]", OF lt(3)] by blast
  then show ?thesis unfolding step by simp
qed

text \<open>A payload that \<open>_validateResponse\<close> rejects makes the attempt fail with its message.\<close>

lemma failure_invalid_payload:
  "v d = Some m \<Longrightarrow> failure v (Json d) = Some (Thrown (Error m))"
  by (simp add: failure_def try_attempt_def)

text \<open>The three failures that the hypothesis of a wholly transient fetch gives.\<close>

lemma transient_failures:
  assumes "\<forall>i<maxAttempts. \<exists>e. failure v (net i) = Some (Thrown e) \<and> \<not> isCE (message e)"
  obtains e0 e1 e2 where "failure v (net 0) = Some (Thrown e0)" "\<not> isCE (message e0)"
    "failure v (net 1) = Some (Thrown e1)" "\<not> isCE (message e1)"
    "failure v (net 2) = Some (Thrown e2)" "\<not> isCE (message e2)"
proof -
  have lt: "0 < maxAttempts" "1 < maxAttempts" "2 < maxAttempts"
    by (simp_all add: maxAttempts_def)
  from assms lt(1) obtain e0 where "failure v (net 0) = Some (Thrown e0)"
    "\<not> isCE (message e0)"
    by blast
  moreover from assms lt(2) obtain e1 where "failure v (net 1) = Some (Thrown e1)"
    "\<not> isCE (message e1)"
    by blast
  moreover from assms lt(3) obtain e2 where "failure v (net 2) = Some (Thrown e2)"
    "\<not> isCE (message e2)"
    by blast
  ultimately show ?thesis using that by blast
qed

text \<open>The key used in the examples has no white space around it.\<close>

lemma trim_key: "trim ''key'' = ''key''"
  by (simp add: trim_def js_whitespace_def drop_ws.simps)

lemma fetches_simps:
  "fetches [] = []"
  "fetches (Fetch q # tr) = q # fetches tr"
  "fetches (Wait n # tr) = fetches tr"
  by (simp_all add: fetches_def)

lemma waits_simps:
  "waits [] = []"
  "waits (Fetch q # tr) = waits tr"
  "waits (Wait n # tr) = n # waits tr"
  by (simp_all add: waits_def)

text \<open>
  Once the key, the coordinates and the dates are accepted, the events of \<open>fetchWeather\<close>
  and \<open>fetchHistorical\<close> are those of the loop, and an \<open>Error\<close> object that the loop
  rethrows becomes the error result; in general the \<^verbatim>\<open>catch\<close> reads the message of what
  the loop rethrows.
\<close>

lemma fetchWeather_loop:
  assumes "truthy apiKey" "trim (the apiKey) \<noteq> []"
    and "validateCoordinates latitude longitude = None"
  obtains req where
    "snd (fetchWeather validateCoordinates Date_parse today net latitude longitude apiKey units) =
     snd (retry_loop vc_isClientError vc_validateResponse net req 0 None [])"
    "\<And>e tr. retry_loop vc_isClientError vc_validateResponse net req 0 None [] =
         (Inl (Thrown e), tr) \<Longrightarrow>
       fetchWeather validateCoordinates Date_parse today net latitude longitude apiKey units =
         (Resolved (ErrorResult (message e) ''visualcrossing''), tr)"
proof -
  let ?req = "\<lparr> rq_latitude = latitude, rq_longitude = longitude,
       rq_unitGroup = (if (if units \<in> set [''metric'', ''us''] then units else ''metric'') =
                          ''metric'' then ''metric'' else ''us''),
       rq_key = trim (the apiKey) \<rparr>"
  have "snd (fetchWeather validateCoordinates Date_parse today net latitude longitude apiKey
          units) = snd (retry_loop vc_isClientError vc_validateResponse net ?req 0 None [])"
    using assms
    by (simp add: fetchWeather_def fetchWeather_try_def Let_def split: prod.splits sum.splits)
  moreover have "fetchWeather validateCoordinates Date_parse today net latitude longitude apiKey
      units = (Resolved (ErrorResult (message e) ''visualcrossing''), tr)"
    if "retry_loop vc_isClientError vc_validateResponse net ?req 0 None [] = (Inl (Thrown e), tr)"
    for e tr
    using assms that
    by (simp add: fetchWeather_def fetchWeather_try_def Let_def)
  ultimately show ?thesis using that by blast
qed


lemma fetchHistorical_loop:
  assumes "validateCoordinates latitude longitude = None"
    and "validateDates Date_parse startDate endDate = None"
  obtains req where
    "snd (fetchHistorical validateCoordinates Date_parse net latitude longitude startDate endDate
       apiKey) =
     snd (retry_loop ms_isClientError ms_validateResponse net req 0 None [])"
    "\<And>e tr. retry_loop ms_isClientError ms_validateResponse net req 0 None [] =
         (Inl (Thrown e), tr) \<Longrightarrow>
       fetchHistorical validateCoordinates Date_parse net latitude longitude startDate endDate
         apiKey = (Resolved (ErrorResult (message e) ''meteostat''), tr)"
proof -
  let ?req = "\<lparr> rq_start = the startDate, rq_end = the endDate, rq_lon = longitude,
       rq_lat = latitude, rq_unit = ''metric'',
       rq_api_key = (if truthy apiKey \<and> length (trim (the apiKey)) > 0
                     then Some (trim (the apiKey)) else None) \<rparr>"
  have "snd (fetchHistorical validateCoordinates Date_parse net latitude longitude startDate
          endDate apiKey) =
        snd (retry_loop ms_isClientError ms_validateResponse net ?req 0 None [])"
    using assms
    by (simp add: fetchHistorical_def fetchHistorical_try_def Let_def
          split: prod.splits sum.splits)
  moreover have "fetchHistorical validateCoordinates Date_parse net latitude longitude startDate
      endDate apiKey = (Resolved (ErrorResult (message e) ''meteostat''), tr)"
    if "retry_loop ms_isClientError ms_validateResponse net ?req 0 None [] = (Inl (Thrown e), tr)"
    for e tr
    using assms that
    by (simp add: fetchHistorical_def fetchHistorical_try_def Let_def)
  ultimately show ?thesis using that by blast
qed


section \<open>Claims about the retry loop\<close>

text \<open>
  C1. When every attempt of a provider fetch fails with an error (an \<open>Error\<close> object, thrown
  by the request or made from the message of \<open>_validateResponse\<close>) that is not classified
  as a client error, \<open>fetchWeather\<close> and \<open>fetchHistorical\<close> send exactly three requests, wait
  200 ms before the second and 400 ms before the third, and resolve to the error result
  with the message of the third failure; the waits do not decrease.
\<close>

theorem transient_failure_three_attempts:
  assumes "truthy apiKey" and "trim (the apiKey) \<noteq> []"
    and "validateCoordinates latitude longitude = None"
    and "\<forall>i<maxAttempts. \<exists>e. failure vc_validateResponse (net i) = Some (Thrown e) \<and>
           \<not> vc_isClientError (message e)"
    and "validateCoordinates' latitude' longitude' = None"
    and "validateDates Date_parse startDate endDate = None"
    and "\<forall>i<maxAttempts. \<exists>e. failure ms_validateResponse (net' i) = Some (Thrown e) \<and>
           \<not> ms_isClientError (message e)"
  shows "(\<exists>req e. failure vc_validateResponse (net 2) = Some (Thrown e) \<and>
            fetchWeather validateCoordinates Date_parse today net latitude longitude apiKey units =
              (Resolved (ErrorResult (message e) ''visualcrossing''),
               [Fetch req, Wait 200, Fetch req, Wait 400, Fetch req])) \<and>
         (\<exists>req e. failure ms_validateResponse (net' 2) = Some (Thrown e) \<and>
            fetchHistorical validateCoordinates' Date_parse net' latitude' longitude' startDate
              endDate apiKey' =
              (Resolved (ErrorResult (message e) ''meteostat''),
               [Fetch req, Wait 200, Fetch req, Wait 400, Fetch req])) \<and>
         sorted (waits (snd (fetchWeather validateCoordinates Date_parse today net latitude
                   longitude apiKey units))) \<and>
         sorted (waits (snd (fetchHistorical validateCoordinates' Date_parse net' latitude'
                   longitude' startDate endDate apiKey')))"
proof -
  obtain e0 e1 e where e: "failure vc_validateResponse (net 2) = Some (Thrown e)"
    and f: "failure vc_validateResponse (net 0) = Some (Thrown e0)"
      "\<not> vc_isClientError (caught_message (Thrown e0))"
      "failure vc_validateResponse (net 1) = Some (Thrown e1)"
      "\<not> vc_isClientError (caught_message (Thrown e1))"
    using transient_failures[OF assms(4)] by (metis caught_message_Thrown)
  have l: "\<And>req. retry_loop vc_isClientError vc_validateResponse net req 0 None [] =
         (Inl (Thrown e), [Fetch req, Wait 200, Fetch req, Wait 400, Fetch req])"
    using retry_loop_transient[OF f e, where data=None and tr="[]"] by simp
  obtain req where "\<And>e tr. retry_loop vc_isClientError vc_validateResponse net req 0 None [] =
         (Inl (Thrown e), tr) \<Longrightarrow>
       fetchWeather validateCoordinates Date_parse today net latitude longitude apiKey units =
         (Resolved (ErrorResult (message e) ''visualcrossing''), tr)"
    using fetchWeather_loop[where validateCoordinates=validateCoordinates and latitude=latitude
        and longitude=longitude, OF assms(1-3)] by blast
  from this[OF l]
  have vc: "fetchWeather validateCoordinates Date_parse today net latitude longitude
      apiKey units = (Resolved (ErrorResult (message e) ''visualcrossing''),
        [Fetch req, Wait 200, Fetch req, Wait 400, Fetch req])" .
  obtain e0' e1' e' where e': "failure ms_validateResponse (net' 2) = Some (Thrown e')"
    and f': "failure ms_validateResponse (net' 0) = Some (Thrown e0')"
      "\<not> ms_isClientError (caught_message (Thrown e0'))"
      "failure ms_validateResponse (net' 1) = Some (Thrown e1')"
      "\<not> ms_isClientError (caught_message (Thrown e1'))"
    using transient_failures[OF assms(7)] by (metis caught_message_Thrown)
  have l': "\<And>req. retry_loop ms_isClientError ms_validateResponse net' req 0 None [] =
         (Inl (Thrown e'), [Fetch req, Wait 200, Fetch req, Wait 400, Fetch req])"
    using retry_loop_transient[OF f' e', where data=None and tr="[]"] by simp
  obtain req' where "\<And>e tr. retry_loop ms_isClientError ms_validateResponse net' req' 0 None [] =
         (Inl (Thrown e), tr) \<Longrightarrow>
       fetchHistorical validateCoordinates' Date_parse net' latitude' longitude' startDate endDate
         apiKey' = (Resolved (ErrorResult (message e) ''meteostat''), tr)"
    using fetchHistorical_loop[where validateCoordinates=validateCoordinates'
        and latitude=latitude' and longitude=longitude', OF assms(5,6)] by blast
  from this[OF l']
  have ms: "fetchHistorical validateCoordinates' Date_parse net' latitude' longitude'
      startDate endDate apiKey' = (Resolved (ErrorResult (message e') ''meteostat''),
        [Fetch req', Wait 200, Fetch req', Wait 400, Fetch req'])" .
  show ?thesis
    using e vc e' ms by (simp add: waits_simps)
qed

theorem transient_failure_three_attempts_witness:
  "truthy (Some ''key'') \<and> trim (the (Some ''key'')) \<noteq> [] \<and>
   coordinates_ok 52.52 13.405 = None \<and>
   failure vc_validateResponse (net_down 0) = Some (Thrown (TypeError ''Failed to fetch'')) \<and>
   failure vc_validateResponse (net_down 1) = Some (Thrown (TypeError ''Failed to fetch'')) \<and>
   failure vc_validateResponse (net_down 2) = Some (Thrown (TypeError ''Failed to fetch'')) \<and>
   \<not> vc_isClientError ''Failed to fetch'' \<and>
   validateDates iso_date_ms (Some ''2024-01-01'') (Some ''2024-01-31'') = None \<and>
   failure ms_validateResponse (net_down 0) = Some (Thrown (TypeError ''Failed to fetch'')) \<and>
   failure ms_validateResponse (net_down 1) = Some (Thrown (TypeError ''Failed to fetch'')) \<and>
   failure ms_validateResponse (net_down 2) = Some (Thrown (TypeError ''Failed to fetch'')) \<and>
   \<not> ms_isClientError ''Failed to fetch'' \<and>
   (\<exists>req. fetchWeather coordinates_ok iso_date_ms 0 net_down 52.52 13.405 (Some ''key'')
             ''metric'' =
           (Resolved (ErrorResult ''Failed to fetch'' ''visualcrossing''),
            [Fetch req, Wait 200, Fetch req, Wait 400, Fetch req])) \<and>
   (\<exists>req. fetchHistorical coordinates_ok iso_date_ms net_down 52.52 13.405
             (Some ''2024-01-01'') (Some ''2024-01-31'') None =
           (Resolved (ErrorResult ''Failed to fetch'' ''meteostat''),
            [Fetch req, Wait 200, Fetch req, Wait 400, Fetch req]))"
proof -
  have h1: "truthy (Some ''key'')" and h2: "trim (the (Some ''key'')) \<noteq> []"
    by (simp_all add: trim_key)
  have h3: "coordinates_ok 52.52 13.405 = None"
    by (simp add: coordinates_ok_def)
  have f: "failure vc_validateResponse (net_down i) = Some (Thrown (TypeError ''Failed to fetch''))"
    "failure ms_validateResponse (net_down i) = Some (Thrown (TypeError ''Failed to fetch''))" for i
    by (simp_all add: failure_def try_attempt_def net_down_def)
  have c: "\<not> vc_isClientError ''Failed to fetch''" "\<not> ms_isClientError ''Failed to fetch''"
    by (simp_all add: vc_isClientError_def ms_isClientError_def)
  have h4: "\<forall>i<maxAttempts. \<exists>e. failure vc_validateResponse (net_down i) = Some (Thrown e) \<and>
      \<not> vc_isClientError (message e)"
    by (simp add: f c)
  have h6: "validateDates iso_date_ms (Some ''2024-01-01'') (Some ''2024-01-31'') = None"
    by (simp add: validateDates_def dateRegex_def is_digit_def iso_date_ms_def digit_val_def
          days_in_month_def days_from_civil_def ceil_div_def Let_def)
  have h7: "\<forall>i<maxAttempts. \<exists>e. failure ms_validateResponse (net_down i) = Some (Thrown e) \<and>
      \<not> ms_isClientError (message e)"
    by (simp add: f c)
  show ?thesis
    using h1 h2 h3 h6 c
      transient_failure_three_attempts[where validateCoordinates=coordinates_ok
        and latitude="52.52" and longitude="13.405" and validateCoordinates'=coordinates_ok
        and latitude'="52.52" and longitude'="13.405" and net=net_down and net'=net_down
        and today=0 and units="''metric''" and apiKey'=None, OF h1 h2 h3 h4 h3 h6 h7]
    by (simp add: f)
qed

section \<open>Claims about client errors\<close>

text \<open>
  C2, as the specification states it, does not hold for every error that a provider reports
  for an invalid request. Visual Crossing answers an invalid request with the payload
  \<^verbatim>\<open>{ errorCode: "400", message: "Invalid request" }\<close>; \<open>_validateResponse\<close> makes the
  message \<open>Visual Crossing: Invalid request\<close> of it, which the pattern of \<open>fetchWeather\<close>
  does not match, and \<open>fetchWeather\<close> sends three requests, with waits of 200 ms and 400 ms.
\<close>

theorem invalid_request_is_retried:
  "vc_validateResponse (Some vc_invalid_request_payload) =
     Some ''Visual Crossing: Invalid request'' \<and>
   \<not> vc_isClientError ''Visual Crossing: Invalid request'' \<and>
   (\<exists>req. fetchWeather coordinates_ok iso_date_ms 0 net_vc_invalid_request 52.52 13.405
      (Some ''key'') ''metric'' =
        (Resolved (ErrorResult ''Visual Crossing: Invalid request'' ''visualcrossing''),
         [Fetch req, Wait 200, Fetch req, Wait 400, Fetch req])) \<and>
   length (fetches (snd (fetchWeather coordinates_ok iso_date_ms 0 net_vc_invalid_request
     52.52 13.405 (Some ''key'') ''metric''))) = 3 \<and>
   waits (snd (fetchWeather coordinates_ok iso_date_ms 0 net_vc_invalid_request 52.52 13.405
     (Some ''key'') ''metric'')) = [200, 400]"
proof -
  have v: "vc_validateResponse (Some vc_invalid_request_payload) =
      Some ''Visual Crossing: Invalid request''"
    by (simp add: vc_validateResponse_def vc_invalid_request_payload_def)
  have f: "failure vc_validateResponse (net_vc_invalid_request i) =
      Some (Thrown (Error ''Visual Crossing: Invalid request''))" for i
    unfolding net_vc_invalid_request_def
    by (rule failure_invalid_payload[where v=vc_validateResponse, OF v])
  have c: "\<not> vc_isClientError ''Visual Crossing: Invalid request''"
    by (simp add: vc_isClientError_def)
  have c': "\<not> vc_isClientError
      (caught_message (Thrown (Error ''Visual Crossing: Invalid request'')))"
    using c by simp
  have l: "\<And>req. retry_loop vc_isClientError vc_validateResponse net_vc_invalid_request req 0
      None [] =
      (Inl (Thrown (Error ''Visual Crossing: Invalid request'')),
       [Fetch req, Wait 200, Fetch req, Wait 400, Fetch req])"
    using retry_loop_transient[where net=net_vc_invalid_request and v=vc_validateResponse
        and isCE=vc_isClientError and data=None and tr="[]", OF f c' f c' f]
    by simp
  have h: "truthy (Some ''key'')" "trim (the (Some ''key'')) \<noteq> []"
    "coordinates_ok 52.52 13.405 = None"
    by (simp_all add: trim_key coordinates_ok_def)
  obtain req where "\<And>e tr.
       retry_loop vc_isClientError vc_validateResponse net_vc_invalid_request req 0 None [] =
         (Inl (Thrown e), tr) \<Longrightarrow>
       fetchWeather coordinates_ok iso_date_ms 0 net_vc_invalid_request 52.52 13.405
         (Some ''key'') ''metric'' = (Resolved (ErrorResult (message e) ''visualcrossing''), tr)"
    using fetchWeather_loop[where validateCoordinates=coordinates_ok and latitude="52.52"
        and longitude="13.405" and net=net_vc_invalid_request, OF h]
    by blast
  from this[OF l]
  have r: "fetchWeather coordinates_ok iso_date_ms 0 net_vc_invalid_request 52.52 13.405
      (Some ''key'') ''metric'' =
        (Resolved (ErrorResult ''Visual Crossing: Invalid request'' ''visualcrossing''),
         [Fetch req, Wait 200, Fetch req, Wait 400, Fetch req])"
    by simp
  have e: "\<exists>req. fetchWeather coordinates_ok iso_date_ms 0 net_vc_invalid_request 52.52 13.405
      (Some ''key'') ''metric'' =
        (Resolved (ErrorResult ''Visual Crossing: Invalid request'' ''visualcrossing''),
         [Fetch req, Wait 200, Fetch req, Wait 400, Fetch req])"
    using r by blast
  have n: "length (fetches (snd (fetchWeather coordinates_ok iso_date_ms 0
      net_vc_invalid_request 52.52 13.405 (Some ''key'') ''metric''))) = 3"
    "waits (snd (fetchWeather coordinates_ok iso_date_ms 0 net_vc_invalid_request 52.52 13.405
      (Some ''key'') ''metric'')) = [200, 400]"
    unfolding r by (simp_all add: fetches_simps waits_simps)
  show ?thesis using v c e n by blast
qed

text \<open>
  C2, amended. Whether a first attempt that fails with an error is the only one is decided
  by the message of the error alone. When the message matches the pattern of the loop
  (\<open>HTTP Fehler 4xx\<close>, \<open>401\<close>, \<open>403\<close>, \<open>404\<close>, \<open>429\<close>, \<open>API key\<close>, and for Visual
  Crossing \<open>Invalid API\<close> or \<open>unauthorized\<close>, for Meteostat \<open>Invalid\<close>), \<open>fetchWeather\<close>
  and \<open>fetchHistorical\<close> send exactly one request, do not wait, and resolve to the error
  result with that message. When it does not, as for the errors that a provider reports for
  an invalid request in other words, the first request is followed by a wait of 200 ms and a
  second request.
\<close>

theorem client_error_pattern_decides:
  assumes "truthy apiKey" and "trim (the apiKey) \<noteq> []"
    and "validateCoordinates latitude longitude = None"
    and "failure vc_validateResponse (net 0) = Some (Thrown e)"
    and "validateCoordinates' latitude' longitude' = None"
    and "validateDates Date_parse startDate endDate = None"
    and "failure ms_validateResponse (net' 0) = Some (Thrown e')"
  shows "(if vc_isClientError (message e)
          then \<exists>req. fetchWeather validateCoordinates Date_parse today net latitude longitude
                  apiKey units =
                    (Resolved (ErrorResult (message e) ''visualcrossing''), [Fetch req])
          else \<exists>req rest. snd (fetchWeather validateCoordinates Date_parse today net latitude
                  longitude apiKey units) = Fetch req # Wait 200 # Fetch req # rest) \<and>
         (if ms_isClientError (message e')
          then \<exists>req. fetchHistorical validateCoordinates' Date_parse net' latitude' longitude'
                  startDate endDate apiKey' =
                    (Resolved (ErrorResult (message e') ''meteostat''), [Fetch req])
          else \<exists>req rest. snd (fetchHistorical validateCoordinates' Date_parse net' latitude'
                  longitude' startDate endDate apiKey') =
                    Fetch req # Wait 200 # Fetch req # rest)"
proof -
  have lt: "0 < maxAttempts" by (simp add: maxAttempts_def)
  obtain req where req:
    "snd (fetchWeather validateCoordinates Date_parse today net latitude longitude apiKey units) =
     snd (retry_loop vc_isClientError vc_validateResponse net req 0 None [])"
    "\<And>e tr. retry_loop vc_isClientError vc_validateResponse net req 0 None [] =
         (Inl (Thrown e), tr) \<Longrightarrow>
       fetchWeather validateCoordinates Date_parse today net latitude longitude apiKey units =
         (Resolved (ErrorResult (message e) ''visualcrossing''), tr)"
    using fetchWeather_loop[where validateCoordinates=validateCoordinates and latitude=latitude
        and longitude=longitude, OF assms(1-3)] by blast
  obtain req' where req':
    "snd (fetchHistorical validateCoordinates' Date_parse net' latitude' longitude' startDate
       endDate apiKey') =
     snd (retry_loop ms_isClientError ms_validateResponse net' req' 0 None [])"
    "\<And>e tr. retry_loop ms_isClientError ms_validateResponse net' req' 0 None [] =
         (Inl (Thrown e), tr) \<Longrightarrow>
       fetchHistorical validateCoordinates' Date_parse net' latitude' longitude' startDate endDate
         apiKey' = (Resolved (ErrorResult (message e) ''meteostat''), tr)"
    using fetchHistorical_loop[where validateCoordinates=validateCoordinates'
        and latitude=latitude' and longitude=longitude', OF assms(5,6)] by blast
  have vc: "\<exists>req. fetchWeather validateCoordinates Date_parse today net latitude longitude
      apiKey units = (Resolved (ErrorResult (message e) ''visualcrossing''), [Fetch req])"
    if "vc_isClientError (message e)"
  proof -
    have "retry_loop vc_isClientError vc_validateResponse net req 0 None [] =
        (Inl (Thrown e), [Fetch req])"
      using retry_loop_stop[where attempt=0 and net=net and v=vc_validateResponse
          and isCE=vc_isClientError and e="Thrown e" and data=None and tr="[]",
          OF lt assms(4)] that
      by simp
    from req(2)[OF this] show ?thesis by blast
  qed
  have vc_retry: "\<exists>req rest. snd (fetchWeather validateCoordinates Date_parse today net latitude
      longitude apiKey units) = Fetch req # Wait 200 # Fetch req # rest"
    if "\<not> vc_isClientError (message e)"
    using retry_loop_second_fetch[where net=net and v=vc_validateResponse
        and isCE=vc_isClientError and e="Thrown e" and data=None and tr="[]" and req=req,
        OF assms(4)]
      that req(1)
    by auto
  have ms: "\<exists>req. fetchHistorical validateCoordinates' Date_parse net' latitude' longitude'
      startDate endDate apiKey' = (Resolved (ErrorResult (message e') ''meteostat''), [Fetch req])"
    if "ms_isClientError (message e')"
  proof -
    have "retry_loop ms_isClientError ms_validateResponse net' req' 0 None [] =
        (Inl (Thrown e'), [Fetch req'])"
      using retry_loop_stop[where attempt=0 and net=net' and v=ms_validateResponse
          and isCE=ms_isClientError and e="Thrown e'" and data=None and tr="[]",
          OF lt assms(7)] that
      by simp
    from req'(2)[OF this] show ?thesis by blast
  qed
  have ms_retry: "\<exists>req rest. snd (fetchHistorical validateCoordinates' Date_parse net' latitude'
      longitude' startDate endDate apiKey') = Fetch req # Wait 200 # Fetch req # rest"
    if "\<not> ms_isClientError (message e')"
    using retry_loop_second_fetch[where net=net' and v=ms_validateResponse
        and isCE=ms_isClientError and e="Thrown e'" and data=None and tr="[]" and req=req',
        OF assms(7)]
      that req'(1)
    by auto
  show ?thesis using vc vc_retry ms ms_retry by simp
qed

theorem client_error_pattern_decides_witness:
  "truthy (Some ''key'') \<and> trim (the (Some ''key'')) \<noteq> [] \<and>
   coordinates_ok 52.52 13.405 = None \<and>
   validateDates iso_date_ms (Some ''2024-01-01'') (Some ''2024-01-31'') = None \<and>
   failure vc_validateResponse (net_429 0) = Some (Thrown (Error ''HTTP Fehler 429'')) \<and>
   vc_isClientError ''HTTP Fehler 429'' \<and>
   failure ms_validateResponse (net_ms_invalid_key 0) =
     Some (Thrown (Error ''Meteostat: Invalid API key'')) \<and>
   ms_isClientError ''Meteostat: Invalid API key'' \<and>
   (\<exists>req. fetchWeather coordinates_ok iso_date_ms 0 net_429 52.52 13.405 (Some ''key'')
             ''metric'' =
           (Resolved (ErrorResult ''HTTP Fehler 429'' ''visualcrossing''), [Fetch req])) \<and>
   (\<exists>req. fetchHistorical coordinates_ok iso_date_ms net_ms_invalid_key 52.52 13.405
             (Some ''2024-01-01'') (Some ''2024-01-31'') None =
           (Resolved (ErrorResult ''Meteostat: Invalid API key'' ''meteostat''), [Fetch req])) \<and>
   failure vc_validateResponse (net_vc_invalid_request 0) =
     Some (Thrown (Error ''Visual Crossing: Invalid request'')) \<and>
   \<not> vc_isClientError ''Visual Crossing: Invalid request'' \<and>
   failure ms_validateResponse (net_ms_invalid_request 0) =
     Some (Thrown (Error ''Meteostat: invalid request'')) \<and>
   \<not> ms_isClientError ''Meteostat: invalid request'' \<and>
   (\<exists>req rest. snd (fetchWeather coordinates_ok iso_date_ms 0 net_vc_invalid_request 52.52
       13.405 (Some ''key'') ''metric'') = Fetch req # Wait 200 # Fetch req # rest) \<and>
   (\<exists>req rest. snd (fetchHistorical coordinates_ok iso_date_ms net_ms_invalid_request 52.52
       13.405 (Some ''2024-01-01'') (Some ''2024-01-31'') None) =
         Fetch req # Wait 200 # Fetch req # rest)"
proof -
  have h1: "truthy (Some ''key'')" and h2: "trim (the (Some ''key'')) \<noteq> []"
    by (simp_all add: trim_key)
  have h3: "coordinates_ok 52.52 13.405 = None"
    by (simp add: coordinates_ok_def)
  have h6: "validateDates iso_date_ms (Some ''2024-01-01'') (Some ''2024-01-31'') = None"
    by (simp add: validateDates_def dateRegex_def is_digit_def iso_date_ms_def digit_val_def
          days_in_month_def days_from_civil_def ceil_div_def Let_def)
  have a4: "failure vc_validateResponse (net_429 0) = Some (Thrown (Error ''HTTP Fehler 429''))"
    by (simp add: failure_def try_attempt_def net_429_def)
  have a5: "vc_isClientError ''HTTP Fehler 429''"
    by (simp add: vc_isClientError_def is_digit_def)
  have a7: "failure ms_validateResponse (net_ms_invalid_key 0) =
      Some (Thrown (Error ''Meteostat: Invalid API key''))"
    by (simp add: failure_def try_attempt_def net_ms_invalid_key_def ms_validateResponse_def
          ms_invalid_key_payload_def)
  have a8: "ms_isClientError ''Meteostat: Invalid API key''"
    by (simp add: ms_isClientError_def)
  have b4: "failure vc_validateResponse (net_vc_invalid_request 0) =
      Some (Thrown (Error ''Visual Crossing: Invalid request''))"
    by (simp add: failure_def try_attempt_def net_vc_invalid_request_def
          vc_validateResponse_def vc_invalid_request_payload_def)
  have b5: "\<not> vc_isClientError ''Visual Crossing: Invalid request''"
    by (simp add: vc_isClientError_def)
  have b7: "failure ms_validateResponse (net_ms_invalid_request 0) =
      Some (Thrown (Error ''Meteostat: invalid request''))"
    by (simp add: failure_def try_attempt_def net_ms_invalid_request_def
          ms_validateResponse_def ms_invalid_request_payload_def)
  have b8: "\<not> ms_isClientError ''Meteostat: invalid request''"
    by (simp add: ms_isClientError_def)
  show ?thesis
    using h1 h2 h3 h6 a4 a5 a7 a8 b4 b5 b7 b8
      client_error_pattern_decides[where validateCoordinates=coordinates_ok
        and latitude="52.52" and longitude="13.405" and validateCoordinates'=coordinates_ok
        and latitude'="52.52" and longitude'="13.405" and net=net_429
        and net'=net_ms_invalid_key and today=0 and units="''metric''" and apiKey'=None,
        OF h1 h2 h3 a4 h3 h6 a7]
      client_error_pattern_decides[where validateCoordinates=coordinates_ok
        and latitude="52.52" and longitude="13.405" and validateCoordinates'=coordinates_ok
        and latitude'="52.52" and longitude'="13.405" and net=net_vc_invalid_request
        and net'=net_ms_invalid_request and today=0 and units="''metric''" and apiKey'=None,
        OF h1 h2 h3 b4 h3 h6 b7]
    by simp
qed

section \<open>Claims about payloads that fail the validation\<close>

text \<open>
  C5, as the specification states it, does not hold: a payload that fails
  \<open>_validateResponse\<close> is thrown inside the loop and retried like a network failure. With
  a network that always answers \<^verbatim>\<open>{}\<close>, which the validation of either client
  rejects, \<open>fetchWeather\<close> and \<open>fetchHistorical\<close> each send three requests.
\<close>

theorem invalid_payload_is_retried:
  "vc_validateResponse (Some vc_empty_payload) \<noteq> None \<and>
   length (fetches (snd (fetchWeather coordinates_ok iso_date_ms 0 net_vc_empty 52.52 13.405
     (Some ''key'') ''metric''))) = 3 \<and>
   ms_validateResponse (Some ms_empty_payload) \<noteq> None \<and>
   length (fetches (snd (fetchHistorical coordinates_ok iso_date_ms net_ms_empty 52.52 13.405
     (Some ''2024-01-01'') (Some ''2024-01-31'') None))) = 3"
proof -
  have v': "ms_validateResponse (Some ms_empty_payload) =
      Some (''Ung'' @ [CHR 0xC3, CHR 0xBC] @ ''ltige Meteostat Antwort: Keine Datenarray'')"
    by (simp add: ms_validateResponse_def ms_empty_payload_def)
  have f': "failure ms_validateResponse (net_ms_empty i) =
      Some (Thrown (Error (''Ung'' @ [CHR 0xC3, CHR 0xBC] @
            ''ltige Meteostat Antwort: Keine Datenarray'')))" for i
    unfolding net_ms_empty_def
    by (rule failure_invalid_payload[where v=ms_validateResponse, OF v'])
  have c': "\<not> ms_isClientError (caught_message (Thrown (Error (''Ung'' @ [CHR 0xC3, CHR 0xBC] @
            ''ltige Meteostat Antwort: Keine Datenarray''))))"
    by (simp add: ms_isClientError_def)
  have l': "\<And>req. retry_loop ms_isClientError ms_validateResponse net_ms_empty req 0 None [] =
      (Inl (Thrown (Error (''Ung'' @ [CHR 0xC3, CHR 0xBC] @
            ''ltige Meteostat Antwort: Keine Datenarray''))),
       [Fetch req, Wait 200, Fetch req, Wait 400, Fetch req])"
    using retry_loop_transient[where net=net_ms_empty and v=ms_validateResponse
        and isCE=ms_isClientError and data=None and tr="[]", OF f' c' f' c' f']
    by simp
  have h': "coordinates_ok 52.52 13.405 = None"
    "validateDates iso_date_ms (Some ''2024-01-01'') (Some ''2024-01-31'') = None"
    by (simp_all add: coordinates_ok_def validateDates_def dateRegex_def is_digit_def
          iso_date_ms_def digit_val_def days_in_month_def days_from_civil_def ceil_div_def
          Let_def)
  obtain req' where "snd (fetchHistorical coordinates_ok iso_date_ms net_ms_empty 52.52
      13.405 (Some ''2024-01-01'') (Some ''2024-01-31'') None) =
      snd (retry_loop ms_isClientError ms_validateResponse net_ms_empty req' 0 None [])"
    using fetchHistorical_loop[where validateCoordinates=coordinates_ok and latitude="52.52"
        and longitude="13.405" and net=net_ms_empty, OF h']
    by blast
  then have ms: "snd (fetchHistorical coordinates_ok iso_date_ms net_ms_empty 52.52
      13.405 (Some ''2024-01-01'') (Some ''2024-01-31'') None) =
      [Fetch req', Wait 200, Fetch req', Wait 400, Fetch req']"
    by (simp add: l')
  have v: "vc_validateResponse (Some vc_empty_payload) =
      Some (''Ung'' @ [CHR 0xC3, CHR 0xBC] @
            ''ltige Visual Crossing Antwort: Keine aktuellen Bedingungen'')"
    by (simp add: vc_validateResponse_def vc_empty_payload_def)
  have f: "failure vc_validateResponse (net_vc_empty i) =
      Some (Thrown (Error (''Ung'' @ [CHR 0xC3, CHR 0xBC] @
            ''ltige Visual Crossing Antwort: Keine aktuellen Bedingungen'')))" for i
    unfolding net_vc_empty_def
    by (rule failure_invalid_payload[where v=vc_validateResponse, OF v])
  have c: "\<not> vc_isClientError (caught_message (Thrown (Error (''Ung'' @ [CHR 0xC3, CHR 0xBC] @
            ''ltige Visual Crossing Antwort: Keine aktuellen Bedingungen''))))"
    by (simp add: vc_isClientError_def)
  have l: "\<And>req. retry_loop vc_isClientError vc_validateResponse net_vc_empty req 0 None [] =
      (Inl (Thrown (Error (''Ung'' @ [CHR 0xC3, CHR 0xBC] @
            ''ltige Visual Crossing Antwort: Keine aktuellen Bedingungen''))),
       [Fetch req, Wait 200, Fetch req, Wait 400, Fetch req])"
    using retry_loop_transient[where net=net_vc_empty and v=vc_validateResponse
        and isCE=vc_isClientError and data=None and tr="[]", OF f c f c f]
    by simp
  have h: "truthy (Some ''key'')" "trim (the (Some ''key'')) \<noteq> []"
    "coordinates_ok 52.52 13.405 = None"
    by (simp_all add: trim_key coordinates_ok_def)
  obtain req where "snd (fetchWeather coordinates_ok iso_date_ms 0 net_vc_empty 52.52 13.405
      (Some ''key'') ''metric'') =
      snd (retry_loop vc_isClientError vc_validateResponse net_vc_empty req 0 None [])"
    using fetchWeather_loop[where validateCoordinates=coordinates_ok and latitude="52.52"
        and longitude="13.405" and net=net_vc_empty, OF h]
    by blast
  then have "snd (fetchWeather coordinates_ok iso_date_ms 0 net_vc_empty 52.52 13.405
      (Some ''key'') ''metric'') = [Fetch req, Wait 200, Fetch req, Wait 400, Fetch req]"
    by (simp add: l)
  then show ?thesis using ms by (simp add: v v' fetches_simps)
qed

text \<open>
  C5, amended. A payload that fails \<open>_validateResponse\<close> ends its attempt with the error of
  the validation message, and the loop then decides as for any other error: when the
  message matches the client-error pattern, no further request is sent and the call
  resolves to the error result with that message; otherwise the first attempt is followed
  by a wait of 200 ms and a second request.
\<close>

theorem invalid_payload_retry_decision:
  assumes "truthy apiKey" and "trim (the apiKey) \<noteq> []"
    and "validateCoordinates latitude longitude = None"
    and "net 0 = Json d" and "vc_validateResponse d = Some m"
    and "validateCoordinates' latitude' longitude' = None"
    and "validateDates Date_parse startDate endDate = None"
    and "net' 0 = Json d'" and "ms_validateResponse d' = Some m'"
  shows "(if vc_isClientError m
          then \<exists>req. fetchWeather validateCoordinates Date_parse today net latitude longitude
                  apiKey units = (Resolved (ErrorResult m ''visualcrossing''), [Fetch req])
          else \<exists>req rest. snd (fetchWeather validateCoordinates Date_parse today net latitude
                  longitude apiKey units) = Fetch req # Wait 200 # Fetch req # rest) \<and>
         (if ms_isClientError m'
          then \<exists>req. fetchHistorical validateCoordinates' Date_parse net' latitude' longitude'
                  startDate endDate apiKey' =
                    (Resolved (ErrorResult m' ''meteostat''), [Fetch req])
          else \<exists>req rest. snd (fetchHistorical validateCoordinates' Date_parse net' latitude'
                  longitude' startDate endDate apiKey') =
                    Fetch req # Wait 200 # Fetch req # rest)"
proof -
  have lt: "0 < maxAttempts" by (simp add: maxAttempts_def)
  have f: "failure vc_validateResponse (net 0) = Some (Thrown (Error m))"
    using failure_invalid_payload[where v=vc_validateResponse, OF assms(5)] assms(4) by simp
  have f': "failure ms_validateResponse (net' 0) = Some (Thrown (Error m'))"
    using failure_invalid_payload[where v=ms_validateResponse, OF assms(9)] assms(8) by simp
  obtain req where req:
    "snd (fetchWeather validateCoordinates Date_parse today net latitude longitude apiKey units) =
     snd (retry_loop vc_isClientError vc_validateResponse net req 0 None [])"
    "\<And>e tr. retry_loop vc_isClientError vc_validateResponse net req 0 None [] =
         (Inl (Thrown e), tr) \<Longrightarrow>
       fetchWeather validateCoordinates Date_parse today net latitude longitude apiKey units =
         (Resolved (ErrorResult (message e) ''visualcrossing''), tr)"
    using fetchWeather_loop[where validateCoordinates=validateCoordinates and latitude=latitude
        and longitude=longitude, OF assms(1-3)] by blast
  obtain req' where req':
    "snd (fetchHistorical validateCoordinates' Date_parse net' latitude' longitude' startDate
       endDate apiKey') =
     snd (retry_loop ms_isClientError ms_validateResponse net' req' 0 None [])"
    "\<And>e tr. retry_loop ms_isClientError ms_validateResponse net' req' 0 None [] =
         (Inl (Thrown e), tr) \<Longrightarrow>
       fetchHistorical validateCoordinates' Date_parse net' latitude' longitude' startDate endDate
         apiKey' = (Resolved (ErrorResult (message e) ''meteostat''), tr)"
    using fetchHistorical_loop[where validateCoordinates=validateCoordinates'
        and latitude=latitude' and longitude=longitude', OF assms(6,7)] by blast
  have vc: "\<exists>req. fetchWeather validateCoordinates Date_parse today net latitude longitude
      apiKey units = (Resolved (ErrorResult m ''visualcrossing''), [Fetch req])"
    if "vc_isClientError m"
  proof -
    have "retry_loop vc_isClientError vc_validateResponse net req 0 None [] =
        (Inl (Thrown (Error m)), [Fetch req])"
      using retry_loop_stop[where attempt=0 and net=net and v=vc_validateResponse
          and isCE=vc_isClientError and e="Thrown (Error m)" and data=None and tr="[]", OF lt f] that
      by simp
    from req(2)[OF this] show ?thesis by auto
  qed
  have vc_retry: "\<exists>req rest. snd (fetchWeather validateCoordinates Date_parse today net latitude
      longitude apiKey units) = Fetch req # Wait 200 # Fetch req # rest"
    if "\<not> vc_isClientError m"
    using retry_loop_second_fetch[where net=net and v=vc_validateResponse
        and isCE=vc_isClientError and e="Thrown (Error m)" and data=None and tr="[]" and req=req, OF f]
      that req(1)
    by auto
  have ms: "\<exists>req. fetchHistorical validateCoordinates' Date_parse net' latitude' longitude'
      startDate endDate apiKey' = (Resolved (ErrorResult m' ''meteostat''), [Fetch req])"
    if "ms_isClientError m'"
  proof -
    have "retry_loop ms_isClientError ms_validateResponse net' req' 0 None [] =
        (Inl (Thrown (Error m')), [Fetch req'])"
      using retry_loop_stop[where attempt=0 and net=net' and v=ms_validateResponse
          and isCE=ms_isClientError and e="Thrown (Error m')" and data=None and tr="[]", OF lt f'] that
      by simp
    from req'(2)[OF this] show ?thesis by auto
  qed
  have ms_retry: "\<exists>req rest. snd (fetchHistorical validateCoordinates' Date_parse net' latitude'
      longitude' startDate endDate apiKey') = Fetch req # Wait 200 # Fetch req # rest"
    if "\<not> ms_isClientError m'"
    using retry_loop_second_fetch[where net=net' and v=ms_validateResponse
        and isCE=ms_isClientError and e="Thrown (Error m')" and data=None and tr="[]" and req=req', OF f']
      that req'(1)
    by auto
  show ?thesis using vc vc_retry ms ms_retry by simp
qed

theorem invalid_payload_retry_decision_witness:
  "truthy (Some ''key'') \<and> trim (the (Some ''key'')) \<noteq> [] \<and>
   coordinates_ok 52.52 13.405 = None \<and>
   net_vc_empty 0 = Json (Some vc_empty_payload) \<and>
   vc_validateResponse (Some vc_empty_payload) =
     Some (''Ung'' @ [CHR 0xC3, CHR 0xBC] @
           ''ltige Visual Crossing Antwort: Keine aktuellen Bedingungen'') \<and>
   \<not> vc_isClientError (''Ung'' @ [CHR 0xC3, CHR 0xBC] @
           ''ltige Visual Crossing Antwort: Keine aktuellen Bedingungen'') \<and>
   validateDates iso_date_ms (Some ''2024-01-01'') (Some ''2024-01-31'') = None \<and>
   net_ms_invalid_key 0 = Json (Some ms_invalid_key_payload) \<and>
   ms_validateResponse (Some ms_invalid_key_payload) = Some ''Meteostat: Invalid API key'' \<and>
   ms_isClientError ''Meteostat: Invalid API key'' \<and>
   (\<exists>req rest. snd (fetchWeather coordinates_ok iso_date_ms 0 net_vc_empty 52.52 13.405
       (Some ''key'') ''metric'') = Fetch req # Wait 200 # Fetch req # rest) \<and>
   (\<exists>req. fetchHistorical coordinates_ok iso_date_ms net_ms_invalid_key 52.52 13.405
       (Some ''2024-01-01'') (Some ''2024-01-31'') None =
         (Resolved (ErrorResult ''Meteostat: Invalid API key'' ''meteostat''), [Fetch req]))"
proof -
  have h1: "truthy (Some ''key'')" and h2: "trim (the (Some ''key'')) \<noteq> []"
    by (simp_all add: trim_key)
  have h3: "coordinates_ok 52.52 13.405 = None"
    by (simp add: coordinates_ok_def)
  have h4: "net_vc_empty 0 = Json (Some vc_empty_payload)"
    by (simp add: net_vc_empty_def)
  have h5: "vc_validateResponse (Some vc_empty_payload) =
      Some (''Ung'' @ [CHR 0xC3, CHR 0xBC] @
            ''ltige Visual Crossing Antwort: Keine aktuellen Bedingungen'')"
    by (simp add: vc_validateResponse_def vc_empty_payload_def)
  have c: "\<not> vc_isClientError (''Ung'' @ [CHR 0xC3, CHR 0xBC] @
            ''ltige Visual Crossing Antwort: Keine aktuellen Bedingungen'')"
    by (simp add: vc_isClientError_def)
  have h7: "validateDates iso_date_ms (Some ''2024-01-01'') (Some ''2024-01-31'') = None"
    by (simp add: validateDates_def dateRegex_def is_digit_def iso_date_ms_def digit_val_def
          days_in_month_def days_from_civil_def ceil_div_def Let_def)
  have h8: "net_ms_invalid_key 0 = Json (Some ms_invalid_key_payload)"
    by (simp add: net_ms_invalid_key_def)
  have h9: "ms_validateResponse (Some ms_invalid_key_payload) = Some ''Meteostat: Invalid API key''"
    by (simp add: ms_validateResponse_def ms_invalid_key_payload_def)
  have c': "ms_isClientError ''Meteostat: Invalid API key''"
    by (simp add: ms_isClientError_def)
  show ?thesis
    using h1 h2 h3 h4 h5 c h7 h8 h9 c'
      invalid_payload_retry_decision[where validateCoordinates=coordinates_ok
        and latitude="52.52" and longitude="13.405" and validateCoordinates'=coordinates_ok
        and latitude'="52.52" and longitude'="13.405" and net=net_vc_empty
        and net'=net_ms_invalid_key and today=0 and units="''metric''" and apiKey'=None,
        OF h1 h2 h3 h4 h5 h3 h7 h8 h9]
    by simp
qed

section \<open>Claims about the provider clients as a whole\<close>

lemma ceil_div_days:
  assumes "d > 365 * 86400000"
  shows "ceil_div d (1000 * 60 * 60 * 24) > 365"
proof -
  have "(- d) div 86400000 < - 365"
    using assms by (simp add: div_less_iff_less_mult)
  then show ?thesis by (simp add: ceil_div_def)
qed

lemma validateDates_rejects:
  assumes "\<not> dateRegex s \<or> \<not> dateRegex e \<or> Date_parse s = None \<or> Date_parse e = None \<or>
     (\<exists>a b. Date_parse s = Some a \<and> Date_parse e = Some b \<and>
        (a > b \<or> b - a > 365 * 86400000))"
  shows "validateDates Date_parse (Some s) (Some e) \<noteq> None"
proof (cases "dateRegex s \<and> dateRegex e")
  case False
  then show ?thesis by (auto simp: validateDates_def)
next
  case True
  then have ne: "s \<noteq> []" "e \<noteq> []" by (auto simp: dateRegex_def)
  show ?thesis
  proof (cases "Date_parse s = None \<or> Date_parse e = None")
    case True
    then show ?thesis using ne \<open>dateRegex s \<and> dateRegex e\<close>
      by (auto simp: validateDates_def split: option.splits)
  next
    case False
    with assms \<open>dateRegex s \<and> dateRegex e\<close>
    obtain a b where ab: "Date_parse s = Some a" "Date_parse e = Some b"
      and bad: "a > b \<or> b - a > 365 * 86400000"
      by blast
    show ?thesis
    proof (cases "a > b")
      case True
      then show ?thesis using ne \<open>dateRegex s \<and> dateRegex e\<close> ab
        by (simp add: validateDates_def)
    next
      case False
      with bad have "\<bar>b - a\<bar> > 365 * 86400000" by simp
      from ceil_div_days[OF this] show ?thesis
        using ne \<open>dateRegex s \<and> dateRegex e\<close> ab False
        by (simp add: validateDates_def Let_def)
    qed
  qed
qed

text \<open>
  C10. For date strings of which one does not have the form \<open>YYYY-MM-DD\<close> or is not a
  date for the engine, or of which the start lies after the end, or which are more than
  365 days apart, \<open>fetchHistorical\<close> resolves to an error result of Meteostat and sends
  no request, whatever the coordinates, the key and the network are.
\<close>

theorem invalid_dates_no_network_call:
  assumes "\<not> dateRegex s \<or> \<not> dateRegex e \<or> Date_parse s = None \<or> Date_parse e = None \<or>
     (\<exists>a b. Date_parse s = Some a \<and> Date_parse e = Some b \<and>
        (a > b \<or> b - a > 365 * 86400000))"
  shows "\<exists>msg. fetchHistorical validateCoordinates Date_parse net latitude longitude (Some s)
           (Some e) apiKey = (Resolved (ErrorResult msg ''meteostat''), [])"
proof -
  obtain m where "validateDates Date_parse (Some s) (Some e) = Some m"
    using validateDates_rejects[OF assms] by blast
  then show ?thesis
    by (simp add: fetchHistorical_def fetchHistorical_try_def split: option.splits)
qed

theorem invalid_dates_no_network_call_witness:
  "iso_date_ms ''2024-02-30'' = None \<and>
   (\<exists>msg. fetchHistorical coordinates_ok iso_date_ms net_down 52.52 13.405 (Some ''2024-02-30'')
      (Some ''2024-03-31'') None = (Resolved (ErrorResult msg ''meteostat''), [])) \<and>
   \<not> dateRegex ''2024-1-1'' \<and>
   (\<exists>msg. fetchHistorical coordinates_ok iso_date_ms net_down 52.52 13.405 (Some ''2024-1-1'')
      (Some ''2024-01-31'') None = (Resolved (ErrorResult msg ''meteostat''), [])) \<and>
   iso_date_ms ''2024-03-01'' = Some 1709251200000 \<and>
   iso_date_ms ''2024-02-01'' = Some 1706745600000 \<and>
   (\<exists>msg. fetchHistorical coordinates_ok iso_date_ms net_down 52.52 13.405 (Some ''2024-03-01'')
      (Some ''2024-02-01'') None = (Resolved (ErrorResult msg ''meteostat''), [])) \<and>
   iso_date_ms ''2024-01-01'' = Some 1704067200000 \<and>
   iso_date_ms ''2025-06-01'' = Some 1748736000000 \<and>
   (1748736000000 :: int) - 1704067200000 > 365 * 86400000 \<and>
   (\<exists>msg. fetchHistorical coordinates_ok iso_date_ms net_down 52.52 13.405 (Some ''2024-01-01'')
      (Some ''2025-06-01'') None = (Resolved (ErrorResult msg ''meteostat''), []))"
proof -
  have r: "\<not> dateRegex ''2024-1-1''"
    by (simp add: dateRegex_def)
  have d: "iso_date_ms ''2024-03-01'' = Some 1709251200000"
    "iso_date_ms ''2024-02-01'' = Some 1706745600000"
    "iso_date_ms ''2024-01-01'' = Some 1704067200000"
    "iso_date_ms ''2025-06-01'' = Some 1748736000000"
    by (simp_all add: iso_date_ms_def is_digit_def digit_val_def days_in_month_def
          is_leap_def days_from_civil_def Let_def)
  have n: "iso_date_ms ''2024-02-30'' = None"
    by (simp add: iso_date_ms_def is_digit_def digit_val_def days_in_month_def is_leap_def)
  have h0: "\<not> dateRegex ''2024-02-30'' \<or> \<not> dateRegex ''2024-03-31'' \<or>
     iso_date_ms ''2024-02-30'' = None \<or> iso_date_ms ''2024-03-31'' = None \<or>
     (\<exists>a b. iso_date_ms ''2024-02-30'' = Some a \<and> iso_date_ms ''2024-03-31'' = Some b \<and>
        (a > b \<or> b - a > 365 * 86400000))"
    using n by simp
  have h1: "\<not> dateRegex ''2024-1-1'' \<or> \<not> dateRegex ''2024-01-31'' \<or>
     iso_date_ms ''2024-1-1'' = None \<or> iso_date_ms ''2024-01-31'' = None \<or>
     (\<exists>a b. iso_date_ms ''2024-1-1'' = Some a \<and> iso_date_ms ''2024-01-31'' = Some b \<and>
        (a > b \<or> b - a > 365 * 86400000))"
    using r by simp
  have h2: "\<not> dateRegex ''2024-03-01'' \<or> \<not> dateRegex ''2024-02-01'' \<or>
     iso_date_ms ''2024-03-01'' = None \<or> iso_date_ms ''2024-02-01'' = None \<or>
     (\<exists>a b. iso_date_ms ''2024-03-01'' = Some a \<and> iso_date_ms ''2024-02-01'' = Some b \<and>
        (a > b \<or> b - a > 365 * 86400000))"
    by (simp add: d)
  have h3: "\<not> dateRegex ''2024-01-01'' \<or> \<not> dateRegex ''2025-06-01'' \<or>
     iso_date_ms ''2024-01-01'' = None \<or> iso_date_ms ''2025-06-01'' = None \<or>
     (\<exists>a b. iso_date_ms ''2024-01-01'' = Some a \<and> iso_date_ms ''2025-06-01'' = Some b \<and>
        (a > b \<or> b - a > 365 * 86400000))"
    by (simp add: d)
  show ?thesis
    using r d n
      invalid_dates_no_network_call[where Date_parse=iso_date_ms
        and validateCoordinates=coordinates_ok and net=net_down and latitude="52.52"
        and longitude="13.405" and apiKey=None, OF h0]
      invalid_dates_no_network_call[where Date_parse=iso_date_ms
        and validateCoordinates=coordinates_ok and net=net_down and latitude="52.52"
        and longitude="13.405" and apiKey=None, OF h1]
      invalid_dates_no_network_call[where Date_parse=iso_date_ms
        and validateCoordinates=coordinates_ok and net=net_down and latitude="52.52"
        and longitude="13.405" and apiKey=None, OF h2]
      invalid_dates_no_network_call[where Date_parse=iso_date_ms
        and validateCoordinates=coordinates_ok and net=net_down and latitude="52.52"
        and longitude="13.405" and apiKey=None, OF h3]
    by simp
qed

section \<open>Claims about the promise of a provider fetch\<close>

text \<open>What the loop rethrows is what one of its attempts threw.\<close>

lemma retry_loop_rethrows:
  assumes "retry_loop isCE v net req attempt data tr = (Inl t, tr')"
  shows "\<exists>i<maxAttempts. failure v (net i) = Some t"
  using assms
proof (induction "maxAttempts - attempt" arbitrary: attempt data tr)
  case 0
  then have "\<not> attempt < maxAttempts" by simp
  then have "retry_loop isCE v net req attempt data tr = (Inr data, tr)"
    by (subst retry_loop.simps) simp
  with 0 show ?case by simp
next
  case (Suc n)
  then have lt: "attempt < maxAttempts" by simp
  show ?case
  proof (cases "failure v (net attempt)")
    case None
    then show ?thesis
      using retry_loop_success[where attempt=attempt and v=v and net=net and isCE=isCE
          and req=req and data=data and tr=tr, OF lt] Suc.prems
      by auto
  next
    case (Some e)
    show ?thesis
    proof (cases "isCE (caught_message e) \<or> attempt + 1 \<ge> maxAttempts")
      case True
      have "retry_loop isCE v net req attempt data tr = (Inl e, tr @ [Fetch req])"
        by (rule retry_loop_stop[where attempt=attempt and v=v and net=net and isCE=isCE
              and req=req and data=data and tr=tr and e=e, OF lt Some True])
      with Suc.prems have "e = t" by simp
      with Some lt show ?thesis by blast
    next
      case False
      then have n: "\<not> isCE (caught_message e)" and lt': "attempt + 1 < maxAttempts"
        by simp_all
      obtain d where step: "retry_loop isCE v net req attempt data tr =
          retry_loop isCE v net req (attempt + 1) d (tr @ [Fetch req, Wait (200 * 2 ^ attempt)])"
        using retry_loop_again[where attempt=attempt and v=v and net=net and isCE=isCE
            and req=req and data=data and tr=tr and e=e, OF lt Some n lt']
        by blast
      have m: "n = maxAttempts - (attempt + 1)" using Suc.hyps(2) by simp
      have "retry_loop isCE v net req (attempt + 1) d
          (tr @ [Fetch req, Wait (200 * 2 ^ attempt)]) = (Inl t, tr')"
        using Suc.prems step by simp
      from Suc.hyps(1)[OF m this] show ?thesis .
    qed
  qed
qed

text \<open>
  An attempt fails with \<open>null\<close> or \<open>undefined\<close> only when the request itself rejected with
  it: the error of a failed validation is an \<open>Error\<close> object.
\<close>

lemma failure_nullish:
  assumes "failure v r = Some t" "t = ThrownNull \<or> t = ThrownUndefined"
  shows "r = Threw t"
  using assms
  by (auto simp: failure_def try_attempt_def split: attempt.splits option.splits)



lemma read_message_Inl:
  "read_message t = Inl err \<Longrightarrow> t = ThrownNull \<or> t = ThrownUndefined"
  by (cases t) (simp_all add: read_message_def)

lemma message_or_string_Inl:
  "message_or_string t = Inl err \<Longrightarrow> t = ThrownNull \<or> t = ThrownUndefined"
  by (cases t) (simp_all add: message_or_string_def read_message_def)


text \<open>
  The promise of a provider fetch rejects only when a request of the call rejected with
  \<open>null\<close> or \<open>undefined\<close>: every \<open>Error\<close> object that the body throws becomes an error
  result.
\<close>

lemma provider_fetch_rejects_only_on_nullish:
  "(fst (fetchWeather validateCoordinates Date_parse today net latitude longitude apiKey units) =
      Rejected x \<longrightarrow>
    (\<exists>i<maxAttempts. net i = Threw ThrownNull \<or> net i = Threw ThrownUndefined)) \<and>
   (fst (fetchHistorical validateCoordinates Date_parse net_ms latitude longitude startDate
      endDate apiKey) = Rejected x \<longrightarrow>
    (\<exists>i<maxAttempts. net_ms i = Threw ThrownNull \<or> net_ms i = Threw ThrownUndefined)) \<and>
   (fst (fetchSunEvents validateCoordinates net_sun latitude longitude apiKey) = Rejected x \<longrightarrow>
    net_sun = Threw ThrownNull \<or> net_sun = Threw ThrownUndefined) \<and>
   (fst (fetchLocationDetails validateCoordinates net_bdc latitude longitude apiKey language) =
      Rejected x \<longrightarrow>
    net_bdc = Threw ThrownNull \<or> net_bdc = Threw ThrownUndefined)"
proof -
  have vc: "\<exists>i<maxAttempts. net i = Threw ThrownNull \<or> net i = Threw ThrownUndefined"
    if r: "fst (fetchWeather validateCoordinates Date_parse today net latitude longitude apiKey
      units) = Rejected x"
  proof -
    obtain res tr where b: "fetchWeather_try validateCoordinates Date_parse today net latitude
        longitude (the apiKey) units = (res, tr)"
      by (cases "fetchWeather_try validateCoordinates Date_parse today net latitude longitude
            (the apiKey) units") blast
    from r b obtain t err where t: "res = Inl t" "read_message t = Inl err"
      by (auto simp: fetchWeather_def split: if_splits sum.splits)
    then have n: "t = ThrownNull \<or> t = ThrownUndefined"
      using read_message_Inl by blast
    let ?req = "\<lparr> rq_latitude = latitude, rq_longitude = longitude,
       rq_unitGroup = (if (if units \<in> set [''metric'', ''us''] then units else ''metric'') =
                          ''metric'' then ''metric'' else ''us''),
       rq_key = trim (the apiKey) \<rparr>"
    have "fst (retry_loop vc_isClientError vc_validateResponse net ?req 0 None []) = Inl t"
      using b t(1) n
      by (auto simp: fetchWeather_try_def Let_def split: option.splits prod.splits sum.splits)
    then have "retry_loop vc_isClientError vc_validateResponse net ?req 0 None [] =
        (Inl t, snd (retry_loop vc_isClientError vc_validateResponse net ?req 0 None []))"
      by (metis prod.collapse)
    then have "\<exists>i<maxAttempts. failure vc_validateResponse (net i) = Some t"
      by (rule retry_loop_rethrows[where net=net and v=vc_validateResponse])
    then obtain i where "i < maxAttempts" "failure vc_validateResponse (net i) = Some t"
      by blast
    then show ?thesis using failure_nullish[OF _ n] n by blast
  qed
  have ms: "\<exists>i<maxAttempts. net_ms i = Threw ThrownNull \<or> net_ms i = Threw ThrownUndefined"
    if r: "fst (fetchHistorical validateCoordinates Date_parse net_ms latitude longitude startDate
      endDate apiKey) = Rejected x"
  proof -
    obtain res tr where b: "fetchHistorical_try validateCoordinates Date_parse net_ms latitude
        longitude startDate endDate apiKey = (res, tr)"
      by (cases "fetchHistorical_try validateCoordinates Date_parse net_ms latitude longitude
            startDate endDate apiKey") blast
    from r b obtain t err where t: "res = Inl t" "read_message t = Inl err"
      by (auto simp: fetchHistorical_def split: sum.splits)
    then have n: "t = ThrownNull \<or> t = ThrownUndefined"
      using read_message_Inl by blast
    let ?req = "\<lparr> rq_start = the startDate, rq_end = the endDate, rq_lon = longitude,
       rq_lat = latitude, rq_unit = ''metric'',
       rq_api_key = (if truthy apiKey \<and> length (trim (the apiKey)) > 0
                     then Some (trim (the apiKey)) else None) \<rparr>"
    have "fst (retry_loop ms_isClientError ms_validateResponse net_ms ?req 0 None []) = Inl t"
      using b t(1) n
      by (auto simp: fetchHistorical_try_def Let_def
            split: option.splits prod.splits sum.splits)
    then have "retry_loop ms_isClientError ms_validateResponse net_ms ?req 0 None [] =
        (Inl t, snd (retry_loop ms_isClientError ms_validateResponse net_ms ?req 0 None []))"
      by (metis prod.collapse)
    then have "\<exists>i<maxAttempts. failure ms_validateResponse (net_ms i) = Some t"
      by (rule retry_loop_rethrows[where net=net_ms and v=ms_validateResponse])
    then obtain i where "i < maxAttempts" "failure ms_validateResponse (net_ms i) = Some t"
      by blast
    then show ?thesis using failure_nullish[OF _ n] n by blast
  qed
  have sun: "net_sun = Threw ThrownNull \<or> net_sun = Threw ThrownUndefined"
    if r: "fst (fetchSunEvents validateCoordinates net_sun latitude longitude apiKey) =
      Rejected x"
  proof -
    obtain res tr where b: "fetchSunEvents_try validateCoordinates net_sun latitude longitude
        apiKey = (res, tr)"
      by (cases "fetchSunEvents_try validateCoordinates net_sun latitude longitude apiKey") blast
    from r b obtain t err where t: "res = Inl t" "message_or_string t = Inl err"
      by (auto simp: fetchSunEvents_def split: sum.splits)
    then have n: "t = ThrownNull \<or> t = ThrownUndefined"
      using message_or_string_Inl by blast
    from b t(1) n show ?thesis
      by (auto simp: fetchSunEvents_try_def Let_def
            split: option.splits attempt.splits if_splits)
  qed
  have bdc: "net_bdc = Threw ThrownNull \<or> net_bdc = Threw ThrownUndefined"
    if r: "fst (fetchLocationDetails validateCoordinates net_bdc latitude longitude apiKey
      language) = Rejected x"
  proof -
    obtain res tr where b: "fetchLocationDetails_try validateCoordinates net_bdc latitude
        longitude apiKey language = (res, tr)"
      by (cases "fetchLocationDetails_try validateCoordinates net_bdc latitude longitude apiKey
            language") blast
    from r b obtain t err where t: "res = Inl t" "message_or_string t = Inl err"
      by (auto simp: fetchLocationDetails_def split: sum.splits)
    then have n: "t = ThrownNull \<or> t = ThrownUndefined"
      using message_or_string_Inl by blast
    from b t(1) n show ?thesis
      by (auto simp: fetchLocationDetails_try_def Let_def
            split: option.splits attempt.splits if_splits sum.splits)
  qed
  show ?thesis using vc ms sun bdc by blast
qed



section \<open>A drain event by event\<close>

text \<open>
  A drain that runs alone, event by event, does what \<open>retryFailedRequests\<close> does in one
  piece.
\<close>

lemma run_append: "run faults (evs @ evs') s = run faults evs' (run faults evs s)"
  by (simp add: run_def)

lemma run_Cons: "run faults (ev # evs) s = run faults evs (handle faults ev s)"
  by (simp add: run_def)

lemma run_Nil: "run faults [] s = s"
  by (simp add: run_def)

lemma settles_Cons:
  "settles net (req # rest) =
     (if net req = FetchResponse True then [Settle 0 (net req), Settle 0 (net req)]
      else [Settle 0 (net req)]) @ settles net rest"
  by (simp add: settles_def)

lemma lone_drain_loop:
  "run no_faults (settles net (req # rest))
     \<lparr> store = entries, drains = [AtFetch req rest],
       sent = calls @ [(fr_url req, fr_options req)] \<rparr> =
   \<lparr> store = fst (retry_each no_faults net (req # rest) entries calls),
     drains = [Finished],
     sent = snd (retry_each no_faults net (req # rest) entries calls) \<rparr>"
proof (induction rest arbitrary: req entries calls)
  case Nil
  show ?case
    by (cases "net req")
       (auto simp: settles_def run_Cons run_Nil on_settle_def removeFailedRequest_def
          no_faults_def)
next
  case (Cons r rest)
  show ?case
  proof (cases "net req = FetchResponse True")
    case True
    have "run no_faults (settles net (req # r # rest))
        \<lparr> store = entries, drains = [AtFetch req (r # rest)],
          sent = calls @ [(fr_url req, fr_options req)] \<rparr> =
      run no_faults (settles net (r # rest))
        \<lparr> store = filter (\<lambda>x. fr_id x \<noteq> fr_id req) entries, drains = [AtFetch r rest],
          sent = (calls @ [(fr_url req, fr_options req)]) @ [(fr_url r, fr_options r)] \<rparr>"
      using True
      by (subst settles_Cons)
         (simp add: run_append run_Cons run_Nil on_settle_def removeFailedRequest_def
            no_faults_def)
    also have "\<dots> = \<lparr> store = fst (retry_each no_faults net (r # rest)
          (filter (\<lambda>x. fr_id x \<noteq> fr_id req) entries) (calls @ [(fr_url req, fr_options req)])),
        drains = [Finished],
        sent = snd (retry_each no_faults net (r # rest)
          (filter (\<lambda>x. fr_id x \<noteq> fr_id req) entries)
          (calls @ [(fr_url req, fr_options req)])) \<rparr>"
      by (rule Cons.IH)
    finally show ?thesis
      using True by (simp add: removeFailedRequest_def no_faults_def)
  next
    case False
    have "run no_faults (settles net (req # r # rest))
        \<lparr> store = entries, drains = [AtFetch req (r # rest)],
          sent = calls @ [(fr_url req, fr_options req)] \<rparr> =
      run no_faults (settles net (r # rest))
        \<lparr> store = entries, drains = [AtFetch r rest],
          sent = (calls @ [(fr_url req, fr_options req)]) @ [(fr_url r, fr_options r)] \<rparr>"
      using False
      by (subst settles_Cons)
         (cases "net req"; simp add: run_append run_Cons run_Nil on_settle_def)
    also have "\<dots> = \<lparr> store = fst (retry_each no_faults net (r # rest) entries
          (calls @ [(fr_url req, fr_options req)])),
        drains = [Finished],
        sent = snd (retry_each no_faults net (r # rest) entries
          (calls @ [(fr_url req, fr_options req)])) \<rparr>"
      by (rule Cons.IH)
    finally show ?thesis
      using False by (cases "net req") simp_all
  qed
qed

lemma lone_drain:
  "run no_faults (Sync ''retry-failed-requests'' # Settle 0 r # Settle 0 r' # settles net entries)
     \<lparr> store = entries, drains = [], sent = [] \<rparr> =
   \<lparr> store = fst (retryFailedRequests no_faults net entries),
     drains = [Finished],
     sent = snd (retryFailedRequests no_faults net entries) \<rparr>"
proof (cases entries)
  case Nil
  then show ?thesis
    by (simp add: run_Cons run_Nil settles_def on_sync_def on_settle_def openIndexedDB_def
          getFailedRequests_def retryFailedRequests_def no_faults_def)
next
  case (Cons req rest)
  have "run no_faults (Sync ''retry-failed-requests'' # Settle 0 r # Settle 0 r' #
          settles net (req # rest)) \<lparr> store = req # rest, drains = [], sent = [] \<rparr> =
        run no_faults (settles net (req # rest))
          \<lparr> store = req # rest, drains = [AtFetch req rest],
            sent = [] @ [(fr_url req, fr_options req)] \<rparr>"
    by (simp add: run_Cons on_sync_def on_settle_def openIndexedDB_def getFailedRequests_def
          no_faults_def)
  also have "\<dots> = \<lparr> store = fst (retry_each no_faults net (req # rest) (req # rest) []),
      drains = [Finished],
      sent = snd (retry_each no_faults net (req # rest) (req # rest) []) \<rparr>"
    by (rule lone_drain_loop)
  finally show ?thesis
    using Cons
    by (simp add: retryFailedRequests_def openIndexedDB_def getFailedRequests_def no_faults_def)
qed

section \<open>Claims about the service worker\<close>

text \<open>
  C6 does not hold in the code when the cache storage fails. For a request that the handler
  intercepts (its URL names none of the API hosts) and whose network fetch fails, the
  handler answers with the cached response for the request when there is one, and otherwise
  with the synthetic response of status 503, status text \<open>Service Unavailable\<close> and the
  offline message as its body; the caches are left as they were. But the promise of
  \<open>caches.match\<close> is returned as it is: when the lookup itself rejects, nothing catches
  that, and the promise given to \<open>respondWith\<close> rejects. (Elsewhere the service worker
  does catch the failures of the Cache API: \<open>cache.put\<close> in the same handler, the lookup
  in \<open>getFromStorage\<close>.)
\<close>

theorem offline_fallback:
  assumes "\<not> is_api_request request" and "fetch request = Inl error"
  shows "(\<not> match_fails faults \<longrightarrow>
            on_fetch self_origin fetch faults caches request =
              (RespondWith (Resolved
                 (case (if req_method request = ''GET'' then caches (url request) else None) of
                    Some response \<Rightarrow> response
                  | None \<Rightarrow>
                      \<lparr> status = 503, statusText = ''Service Unavailable'', rtype = ''default'',
                        body = ''Offline - Diese Seite ist im Offline-Modus nicht verf'' @
                               [CHR 0xC3, CHR 0xBC] @ ''gbar'' \<rparr>)),
               caches)) \<and>
         (match_fails faults \<longrightarrow>
            (\<exists>err. on_fetch self_origin fetch faults caches request =
                     (RespondWith (Rejected err), caches)))"
  using assms
  by (simp add: on_fetch_def caches_match_def offline_response_def split: option.splits)

theorem offline_fallback_witness:
  "\<not> is_api_request page_request \<and>
   fetch_fails page_request = Inl (TypeError ''Failed to fetch'') \<and>
   \<not> match_fails cache_works \<and> match_fails cache_broken \<and>
   on_fetch ''https://calchas.example'' fetch_fails cache_works
     (Map.empty(url page_request \<mapsto> cached_page)) page_request =
     (RespondWith (Resolved cached_page), Map.empty(url page_request \<mapsto> cached_page)) \<and>
   on_fetch ''https://calchas.example'' fetch_fails cache_works Map.empty page_request =
     (RespondWith (Resolved
        \<lparr> status = 503, statusText = ''Service Unavailable'', rtype = ''default'',
          body = ''Offline - Diese Seite ist im Offline-Modus nicht verf'' @
                 [CHR 0xC3, CHR 0xBC] @ ''gbar'' \<rparr>), Map.empty) \<and>
   on_fetch ''https://calchas.example'' fetch_fails cache_broken
     (Map.empty(url page_request \<mapsto> cached_page)) page_request =
     (RespondWith (Rejected (Thrown (JsError ''DOMException'' []))),
      Map.empty(url page_request \<mapsto> cached_page))"
proof -
  have h1: "\<not> is_api_request page_request"
    by (simp add: is_api_request_def page_request_def)
  have h2: "fetch_fails page_request = Inl (TypeError ''Failed to fetch'')"
    by (simp add: fetch_fails_def)
  have w: "\<not> match_fails cache_works" and b: "match_fails cache_broken"
    by (simp_all add: cache_works_def cache_broken_def)
  have r: "on_fetch ''https://calchas.example'' fetch_fails cache_broken
      (Map.empty(url page_request \<mapsto> cached_page)) page_request =
      (RespondWith (Rejected err), caches') \<Longrightarrow>
      err = Thrown (JsError ''DOMException'' [])" for err caches'
    using h1 by (simp add: on_fetch_def fetch_fails_def caches_match_def b)
  have x: "on_fetch ''https://calchas.example'' fetch_fails cache_broken
     (Map.empty(url page_request \<mapsto> cached_page)) page_request =
     (RespondWith (Rejected (Thrown (JsError ''DOMException'' []))),
      Map.empty(url page_request \<mapsto> cached_page))"
    using offline_fallback[where fetch=fetch_fails and request=page_request
        and self_origin="''https://calchas.example''" and faults=cache_broken
        and caches="Map.empty(url page_request \<mapsto> cached_page)", OF h1 h2] b r
    by metis
  show ?thesis
    using h1 h2 w b x
      offline_fallback[where fetch=fetch_fails and request=page_request
        and self_origin="''https://calchas.example''" and faults=cache_works
        and caches="Map.empty(url page_request \<mapsto> cached_page)", OF h1 h2]
      offline_fallback[where fetch=fetch_fails and request=page_request
        and self_origin="''https://calchas.example''" and faults=cache_works
        and caches=Map.empty, OF h1 h2]
    by (simp add: page_request_def)
qed

text \<open>
  The loop of \<open>retryFailedRequests\<close>, when IndexedDB does not fail: every entry read at the
  start is requested once, in order, and the entries whose identifier is that of an entry
  with an \<open>ok\<close> response are removed from the store.
\<close>

lemma removeFailedRequest_no_faults:
  "removeFailedRequest no_faults entries i = Inr (filter (\<lambda>r. fr_id r \<noteq> i) entries)"
  by (simp add: removeFailedRequest_def no_faults_def)

lemma retry_each_no_faults:
  "retry_each no_faults net snapshot entries calls =
     (filter (\<lambda>r. fr_id r \<notin> fr_id ` {x \<in> set snapshot. net x = FetchResponse True}) entries,
      calls @ map (\<lambda>r. (fr_url r, fr_options r)) snapshot)"
proof (induction snapshot arbitrary: entries calls)
  case Nil
  then show ?case by simp
next
  case (Cons req rest)
  show ?case
  proof (cases "net req")
    case (FetchThrew err)
    then show ?thesis
      by (simp add: Cons.IH) (rule filter_cong, auto)
  next
    case (FetchResponse ok)
    show ?thesis
    proof (cases ok)
      case True
      have "filter (\<lambda>r. fr_id r \<notin> fr_id ` {x \<in> set rest. net x = FetchResponse True})
              (filter (\<lambda>r. fr_id r \<noteq> fr_id req) entries) =
            filter (\<lambda>r. fr_id r \<notin> fr_id ` {x \<in> set (req # rest). net x = FetchResponse True})
              entries"
        using FetchResponse True by (simp, intro filter_cong) auto
      then show ?thesis
        using FetchResponse True
        by (simp add: Cons.IH removeFailedRequest_no_faults)
    next
      case False
      then show ?thesis
        using FetchResponse by (simp add: Cons.IH) (rule filter_cong, auto)
    qed
  qed
qed

lemma retryFailedRequests_no_faults:
  "retryFailedRequests no_faults net entries =
     (filter (\<lambda>r. fr_id r \<notin> fr_id ` {x \<in> set entries. net x = FetchResponse True}) entries,
      map (\<lambda>r. (fr_url r, fr_options r)) entries)"
  by (simp add: retryFailedRequests_def openIndexedDB_def getFailedRequests_def
        retry_each_no_faults)
     (simp add: no_faults_def)

lemma retryFailedRequests_empty:
  "retryFailedRequests faults net [] = ([], [])"
  by (simp add: retryFailedRequests_def openIndexedDB_def getFailedRequests_def)

text \<open>
  C7, as the specification states it, does not hold: no line of the service worker counts
  attempts. An entry whose replay fails is left in the store as it was.
\<close>

theorem failed_replay_leaves_entry_unchanged:
  "retryFailedRequests no_faults replay_fails [queued_1] =
     ([queued_1], [(''/api/favorites'', ''{}'')]) \<and>
   attempts queued_1 = 0"
  by (simp add: retryFailedRequests_no_faults replay_fails_def queued_1_def)

text \<open>
  C7, amended. When IndexedDB does not fail and the entries have distinct identifiers (the
  key path of the store), a drain sends one request for each entry of the store, in order;
  afterwards the store holds exactly the entries whose replay threw or got a response that
  is not \<open>ok\<close>, each unchanged, and the entries whose replay got an \<open>ok\<close> response are
  gone.
\<close>

theorem drain_attempts_each_entry_once:
  assumes "distinct (map fr_id entries)"
  shows "retryFailedRequests no_faults net entries =
           (filter (\<lambda>r. net r \<noteq> FetchResponse True) entries,
            map (\<lambda>r. (fr_url r, fr_options r)) entries)"
proof -
  have inj: "inj_on fr_id (set entries)"
    using assms by (simp add: distinct_map)
  have "filter (\<lambda>r. fr_id r \<notin> fr_id ` {x \<in> set entries. net x = FetchResponse True}) entries =
        filter (\<lambda>r. net r \<noteq> FetchResponse True) entries"
  proof (rule filter_cong[OF refl])
    fix r assume r: "r \<in> set entries"
    show "(fr_id r \<notin> fr_id ` {x \<in> set entries. net x = FetchResponse True}) =
          (net r \<noteq> FetchResponse True)"
      using r inj by (auto dest: inj_onD)
  qed
  then show ?thesis by (simp add: retryFailedRequests_no_faults)
qed

theorem drain_attempts_each_entry_once_witness:
  "distinct (map fr_id [queued_1, queued_2]) \<and>
   retryFailedRequests no_faults replay_first_ok [queued_1, queued_2] =
     ([queued_2], [(''/api/favorites'', ''{}''), (''/api/settings'', ''{}'')])"
proof -
  have h: "distinct (map fr_id [queued_1, queued_2])"
    by (simp add: queued_1_def queued_2_def)
  show ?thesis
    using h drain_attempts_each_entry_once[OF h, of replay_first_ok]
    by (simp add: replay_first_ok_def queued_1_def queued_2_def)
qed

text \<open>
  C8. When IndexedDB does not fail and the replay of every entry gets an \<open>ok\<close> response,
  the drain leaves the store empty, and a drain that follows it sends no request, whatever
  the network and IndexedDB then do.
\<close>

theorem second_drain_sends_nothing:
  assumes "\<forall>r\<in>set entries. net r = FetchResponse True"
  shows "fst (retryFailedRequests no_faults net entries) = [] \<and>
         snd (retryFailedRequests faults' net'
                (fst (retryFailedRequests no_faults net entries))) = []"
proof -
  have "filter (\<lambda>r. fr_id r \<notin> fr_id ` {x \<in> set entries. net x = FetchResponse True}) entries = []"
    using assms by (auto simp: filter_empty_conv)
  then have "fst (retryFailedRequests no_faults net entries) = []"
    by (simp add: retryFailedRequests_no_faults)
  then show ?thesis by (simp add: retryFailedRequests_empty)
qed

theorem second_drain_sends_nothing_witness:
  "replay_ok queued_1 = FetchResponse True \<and> replay_ok queued_2 = FetchResponse True \<and>
   snd (retryFailedRequests no_faults replay_ok [queued_1, queued_2]) =
     [(''/api/favorites'', ''{}''), (''/api/settings'', ''{}'')] \<and>
   fst (retryFailedRequests no_faults replay_ok [queued_1, queued_2]) = [] \<and>
   snd (retryFailedRequests no_faults replay_fails
          (fst (retryFailedRequests no_faults replay_ok [queued_1, queued_2]))) = []"
proof -
  have h: "\<forall>r\<in>set [queued_1, queued_2]. replay_ok r = FetchResponse True"
    by (simp add: replay_ok_def)
  have c: "snd (retryFailedRequests no_faults replay_ok [queued_1, queued_2]) =
     [(''/api/favorites'', ''{}''), (''/api/settings'', ''{}'')]"
    by (simp add: retryFailedRequests_no_faults queued_1_def queued_2_def)
  have o: "replay_ok queued_1 = FetchResponse True" "replay_ok queued_2 = FetchResponse True"
    by (simp_all add: replay_ok_def)
  show ?thesis
    using c o second_drain_sends_nothing[OF h, of no_faults replay_fails]
    by blast
qed

text \<open>
  C9, as the specification states it, does not hold: the listener for \<open>sync\<close> calls
  \<open>retryFailedRequests()\<close> without looking whether a drain is in progress. When a second
  \<open>sync\<close> event arrives while the first drain awaits the request for an entry, two drains
  are in progress and the request for that entry is in flight twice.
\<close>

theorem overlapping_drains:
  "in_progress (run no_faults overlapping_syncs one_queued) =
     [AtFetch queued_1 [], AtFetch queued_1 []] \<and>
   in_flight (run no_faults overlapping_syncs one_queued) = [queued_1, queued_1] \<and>
   sent (run no_faults overlapping_syncs one_queued) =
     [(''/api/favorites'', ''{}''), (''/api/favorites'', ''{}'')]"
  by (simp add: run_def overlapping_syncs_def one_queued_def on_sync_def on_settle_def
        openIndexedDB_def getFailedRequests_def no_faults_def in_progress_def in_flight_def
        queued_1_def)

text \<open>
  C9, amended. A \<open>sync\<close> event with the tag \<open>retry-failed-requests\<close> is never ignored.
  In whatever state the service worker is, also while other drains are in progress, it
  starts a new drain, which (IndexedDB working) opens the database, reads the store and
  sends its own request for the first entry of the store, while the drains that were in
  progress, and their requests in flight, stay as they were; a \<open>sync\<close> event with
  another tag starts no drain, and no \<open>sync\<close> event sends a request by itself. Within one
  drain the entries are requested one after the other: a request is sent only when the
  promise that a drain awaits settles, that drain alone moves on, and it sends at most one
  request, for the entry that follows the one it has just handled (or for the first entry
  of the store, after reading it).
\<close>

theorem sync_always_starts_a_drain:
  assumes "store s = e # es"
  shows "run no_faults
           [Sync ''retry-failed-requests'', Settle (length (drains s)) r,
            Settle (length (drains s)) r'] s =
           s\<lparr>drains := drains s @ [AtFetch e es],
             sent := sent s @ [(fr_url e, fr_options e)]\<rparr> \<and>
         (tag \<noteq> ''retry-failed-requests'' \<longrightarrow> handle faults (Sync tag) s = s) \<and>
         sent (handle faults (Sync tag) s) = sent s \<and>
         (\<forall>j<length (drains s). j \<noteq> i \<longrightarrow>
            drains (handle faults (Settle i r) s) ! j = drains s ! j) \<and>
         (sent (handle faults (Settle i r) s) = sent s \<or>
          (\<exists>q rest. sent (handle faults (Settle i r) s) = sent s @ [(fr_url q, fr_options q)] \<and>
             drains (handle faults (Settle i r) s) ! i = AtFetch q rest \<and>
             (drains s ! i = AtGetAll \<and> store s = q # rest \<or>
              (\<exists>p. drains s ! i = AtFetch p (q # rest) \<or>
                   drains s ! i = AtRemove p (q # rest)))))"
proof -
  let ?n = "length (drains s)"
  have a: "run no_faults [Sync ''retry-failed-requests'', Settle ?n r, Settle ?n r'] s =
      s\<lparr>drains := drains s @ [AtFetch e es], sent := sent s @ [(fr_url e, fr_options e)]\<rparr>"
    using assms
    by (simp add: run_def on_sync_def on_settle_def openIndexedDB_def getFailedRequests_def
          no_faults_def)
  have b: "tag \<noteq> ''retry-failed-requests'' \<longrightarrow> handle faults (Sync tag) s = s"
    by (simp add: on_sync_def)
  have c: "sent (handle faults (Sync tag) s) = sent s"
    by (simp add: on_sync_def)
  have n: "sent (snd (next_entry l s')) = sent s' \<and> l = [] \<and> fst (next_entry l s') = Finished \<or>
      (\<exists>q rest. l = q # rest \<and> fst (next_entry l s') = AtFetch q rest \<and>
         sent (snd (next_entry l s')) = sent s' @ [(fr_url q, fr_options q)])"
    for l s'
    by (cases l) simp_all
  have nd: "drains (snd (next_entry l s')) = drains s'" for l s'
    by (cases l) simp_all
  have rd: "drains (snd (resume faults r d s)) = drains s" for d
    by (cases d)
       (simp_all add: nd split: sum.splits fetch_result.splits)
  have d: "\<forall>j<length (drains s). j \<noteq> i \<longrightarrow>
      drains (handle faults (Settle i r) s) ! j = drains s ! j"
    using rd[of "drains s ! i"]
    by (auto simp: on_settle_def split: prod.splits)
  have f: "sent (handle faults (Settle i r) s) = sent s \<or>
      (\<exists>q rest. sent (handle faults (Settle i r) s) = sent s @ [(fr_url q, fr_options q)] \<and>
         drains (handle faults (Settle i r) s) ! i = AtFetch q rest \<and>
         (drains s ! i = AtGetAll \<and> store s = q # rest \<or>
          (\<exists>p. drains s ! i = AtFetch p (q # rest) \<or> drains s ! i = AtRemove p (q # rest))))"
  proof (cases "i < length (drains s)")
    case False
    then show ?thesis by (simp add: on_settle_def)
  next
    case True
    obtain d' s' where res: "resume faults r (drains s ! i) s = (d', s')"
      by (cases "resume faults r (drains s ! i) s") blast
    have h: "handle faults (Settle i r) s = s'\<lparr>drains := (drains s')[i := d']\<rparr>"
      using True res by (simp add: on_settle_def)
    have len: "i < length (drains s')"
      using rd[of "drains s ! i"] res True by simp
    have k: "sent s' = sent s \<or>
      (\<exists>q rest. sent s' = sent s @ [(fr_url q, fr_options q)] \<and> d' = AtFetch q rest \<and>
         (drains s ! i = AtGetAll \<and> store s = q # rest \<or>
          (\<exists>p. drains s ! i = AtFetch p (q # rest) \<or> drains s ! i = AtRemove p (q # rest))))"
    proof (cases "drains s ! i")
      case AtOpen
      then show ?thesis using res by (auto split: sum.splits)
    next
      case AtGetAll
      then show ?thesis
        using res n[of "store s" s]
        by (auto simp: getFailedRequests_def split: if_splits)
    next
      case (AtFetch p l)
      then show ?thesis
        using res n[of l s]
        by (auto split: fetch_result.splits if_splits)
    next
      case (AtRemove p l)
      then show ?thesis
        using res n[of l s] n[of l "s\<lparr>store := filter (\<lambda>x. fr_id x \<noteq> fr_id p) (store s)\<rparr>"]
        by (auto simp: removeFailedRequest_def split: if_splits)
    next
      case Finished
      then show ?thesis using res by simp
    qed
    show ?thesis unfolding h using k len by auto
  qed
  show ?thesis using a b c d f by blast
qed

theorem sync_always_starts_a_drain_witness:
  "store draining = [queued_1] \<and>
   in_flight draining = [queued_1] \<and>
   run no_faults
     [Sync ''retry-failed-requests'', Settle 1 (FetchResponse True), Settle 1 (FetchResponse True)]
     draining =
     \<lparr> store = [queued_1], drains = [AtFetch queued_1 [], AtFetch queued_1 []],
       sent = [(''/api/favorites'', ''{}''), (''/api/favorites'', ''{}'')] \<rparr> \<and>
   in_flight (run no_faults
     [Sync ''retry-failed-requests'', Settle 1 (FetchResponse True), Settle 1 (FetchResponse True)]
     draining) = [queued_1, queued_1] \<and>
   ''weather-update'' \<noteq> ''retry-failed-requests'' \<and>
   handle no_faults (Sync ''weather-update'') draining = draining \<and>
   handle no_faults (Settle 0 (FetchResponse False)) draining_two =
     \<lparr> store = [queued_1, queued_2], drains = [AtFetch queued_2 []],
       sent = [(''/api/favorites'', ''{}''), (''/api/settings'', ''{}'')] \<rparr>"
proof -
  have h: "store draining = queued_1 # []"
    by (simp add: draining_def)
  have l: "length (drains draining) = 1"
    by (simp add: draining_def)
  note t = sync_always_starts_a_drain[where s=draining and e=queued_1 and es="[]"
      and r="FetchResponse True" and r'="FetchResponse True" and tag="''weather-update''"
      and faults=no_faults, OF h]
  have a: "run no_faults
     [Sync ''retry-failed-requests'', Settle 1 (FetchResponse True), Settle 1 (FetchResponse True)]
     draining =
     \<lparr> store = [queued_1], drains = [AtFetch queued_1 [], AtFetch queued_1 []],
       sent = [(''/api/favorites'', ''{}''), (''/api/favorites'', ''{}'')] \<rparr>"
    using t by (simp add: l) (simp add: draining_def queued_1_def)
  have f: "in_flight draining = [queued_1]"
    by (simp add: in_flight_def draining_def)
  have f': "in_flight (run no_faults
     [Sync ''retry-failed-requests'', Settle 1 (FetchResponse True), Settle 1 (FetchResponse True)]
     draining) = [queued_1, queued_1]"
    unfolding a by (simp add: in_flight_def)
  have b: "handle no_faults (Sync ''weather-update'') draining = draining"
    using t by simp
  have c: "handle no_faults (Settle 0 (FetchResponse False)) draining_two =
     \<lparr> store = [queued_1, queued_2], drains = [AtFetch queued_2 []],
       sent = [(''/api/favorites'', ''{}''), (''/api/settings'', ''{}'')] \<rparr>"
    by (simp add: on_settle_def draining_two_def queued_2_def)
  show ?thesis using h f a f' b c by simp
qed

section \<open>Claims about units\<close>







end
